theory Spec2Isabelle
  imports Main "HOL-Library.Word"
begin

unbundle bit_operations_syntax

section \<open>The Atmel I2C TPM driver: data model\<close>

text \<open>
  The driver (\<^verbatim>\<open>src/tpm_i2c_atmel.c\<close>) keeps one device instance \<^verbatim>\<open>tpm_dev\<close> with a
  byte buffer of \<^verbatim>\<open>TPM_BUFSIZE\<close> bytes. Its entry points are \<^verbatim>\<open>tpm_tis_i2c_read\<close> and
  \<^verbatim>\<open>tpm_tis_i2c_write\<close>; the helper \<^verbatim>\<open>tpm_i2c_read\<close> polls the bus.

  C types: \<^verbatim>\<open>u8\<close> is an 8-bit word, \<^verbatim>\<open>int\<close> a 32-bit word read with \<open>sint\<close>. A
  \<^verbatim>\<open>size_t\<close> is a \<open>nat\<close>; the value of a returned \<^verbatim>\<open>ssize_t\<close> is an \<open>int\<close> (every value
  the driver returns lies between \<open>-95\<close> and \<open>65535\<close>). The loop counter \<^verbatim>\<open>trapdoor\<close> is a
  \<^verbatim>\<open>u32\<close> that never exceeds 60000, so it is a \<open>nat\<close>.
\<close>

type_synonym u8 = "8 word"
type_synonym c_int = "32 word"

definition TPM_BUFSIZE :: nat where
  "TPM_BUFSIZE = 1024"

text \<open>
  Modelled from the spec: the header \<^verbatim>\<open>tpm_i2c.h\<close> that defines \<^verbatim>\<open>TPM_HEADER_SIZE\<close> is not
  among the sources; the specification gives \<^verbatim>\<open>HEADER_SIZE = 6\<close>.
\<close>

definition TPM_HEADER_SIZE :: nat where
  "TPM_HEADER_SIZE = 6"

text \<open>The errno values of the Linux kernel that the driver returns negated.\<close>

definition EIO :: c_int where
  "EIO = 5"

definition EFAULT :: c_int where
  "EFAULT = 14"

definition EINVAL :: c_int where
  "EINVAL = 22"

definition EOPNOTSUPP :: c_int where
  "EOPNOTSUPP = 95"

definition trapdoor_limit :: nat where
  "trapdoor_limit = 60000"

subsection \<open>Bus messages and the observable effects\<close>

text \<open>
  \<^verbatim>\<open>struct i2c_msg { addr, flags, len, buf }\<close>. The flag is \<^verbatim>\<open>I2C_M_RD\<close> for a read and 0
  for a write; \<^verbatim>\<open>len\<close> is a 16-bit field; the pointer \<^verbatim>\<open>buf\<close> is kept as its offset from
  \<^verbatim>\<open>tpm_dev.buf\<close>.
\<close>

datatype xfer_dir = I2C_M_RD | I2C_M_WR

record i2c_msg =
  msg_addr :: "16 word"
  msg_flags :: xfer_dir
  msg_len :: nat
  msg_buf :: nat

text \<open>
  Every access to the device buffer and every call into the bus layer is recorded, in
  order, with the buffer offset and the number of bytes it touches.
\<close>

datatype event =
    Memset nat nat
  | Call_tpm_i2c_read nat nat
  | Lock_adapter
  | Unlock_adapter
  | I2c_transfer xfer_dir nat nat
  | Msleep nat
  | Copy_to_user nat nat
  | Copy_from_user nat nat

text \<open>
  The surroundings of the driver: the client's bus address, whether the adapter has a
  \<^verbatim>\<open>master_xfer\<close> operation, and the bus itself. The bus answers the \<open>k\<close>-th raw transfer
  (counted from 0 over the device's lifetime) with the value \<^verbatim>\<open>i2c_transfer\<close> returns and the
  bytes the adapter stores into the message buffer when the message is a read.
\<close>

record env =
  client_addr :: "16 word"
  has_master_xfer :: bool
  bus :: "nat \<Rightarrow> c_int \<times> u8 list"

text \<open>
  The state: \<open>mem\<close> is kernel memory addressed from \<^verbatim>\<open>&tpm_dev.buf[0]\<close>, so that
  \<^verbatim>\<open>tpm_dev.buf\<close> is \<open>mem\<close> at \<open>0 ..< TPM_BUFSIZE\<close> and whatever lies behind the buffer
  follows; \<open>n_xfer\<close> counts the raw transfers made so far; \<open>events\<close> is the record of
  effects.
\<close>

record world =
  mem :: "nat \<Rightarrow> u8"
  n_xfer :: nat
  events :: "event list"

definition dev_buf :: "world \<Rightarrow> u8 list" where
  "dev_buf w = map (mem w) [0..<TPM_BUFSIZE]"

definition log_event :: "event \<Rightarrow> world \<Rightarrow> world" where
  "log_event ev w = w\<lparr>events := events w @ [ev]\<rparr>"

definition store_bytes :: "nat \<Rightarrow> u8 list \<Rightarrow> (nat \<Rightarrow> u8) \<Rightarrow> (nat \<Rightarrow> u8)" where
  "store_bytes off d m = (\<lambda>i. if off \<le> i \<and> i < off + length d then d ! (i - off) else m i)"

definition load_bytes :: "nat \<Rightarrow> nat \<Rightarrow> (nat \<Rightarrow> u8) \<Rightarrow> u8 list" where
  "load_bytes off n m = map m [off..<off + n]"

section \<open>Kernel services used by the driver\<close>

text \<open>\<^verbatim>\<open>memset(tpm_dev.buf + off, c, n)\<close>.\<close>

definition memset :: "nat \<Rightarrow> u8 \<Rightarrow> nat \<Rightarrow> world \<Rightarrow> world" where
  "memset off c n w =
     log_event (Memset off n) (w\<lparr>mem := store_bytes off (replicate n c) (mem w)\<rparr>)"

definition msleep :: "nat \<Rightarrow> world \<Rightarrow> world" where
  "msleep ms w = log_event (Msleep ms) w"

text \<open>
  \<^verbatim>\<open>i2c_transfer(adapter, &msg, 1)\<close>: one raw transfer. A read stores at most
  \<^verbatim>\<open>msg.len\<close> bytes at \<^verbatim>\<open>msg.buf\<close>; a write leaves memory as it is.
\<close>

definition i2c_transfer :: "env \<Rightarrow> i2c_msg \<Rightarrow> world \<Rightarrow> c_int \<times> world" where
  "i2c_transfer e msg w =
     (case bus e (n_xfer w) of (rc, data) \<Rightarrow>
        (rc,
         w\<lparr>mem := (case msg_flags msg of
                     I2C_M_RD \<Rightarrow> store_bytes (msg_buf msg) (take (msg_len msg) data) (mem w)
                   | I2C_M_WR \<Rightarrow> mem w),
           n_xfer := Suc (n_xfer w),
           events := events w @ [I2c_transfer (msg_flags msg) (msg_buf msg) (msg_len msg)]\<rparr>))"

text \<open>
  \<^verbatim>\<open>copy_to_user(to, tpm_dev.buf + off, n)\<close> where \<open>room\<close> bytes are writable at the user
  pointer \<^verbatim>\<open>to\<close>: it returns the number of bytes it could not copy, and the bytes that
  reached the caller.
\<close>

definition copy_to_user :: "nat \<Rightarrow> nat \<Rightarrow> nat \<Rightarrow> world \<Rightarrow> nat \<times> u8 list \<times> world" where
  "copy_to_user room off n w =
     (n - min n room, load_bytes off (min n room) (mem w), log_event (Copy_to_user off n) w)"

text \<open>
  \<^verbatim>\<open>copy_from_user(tpm_dev.buf + off, from, n)\<close> where the bytes \<open>src\<close> are readable at the
  user pointer \<^verbatim>\<open>from\<close>: it returns the number of bytes it could not copy.
\<close>

definition copy_from_user :: "nat \<Rightarrow> u8 list \<Rightarrow> nat \<Rightarrow> world \<Rightarrow> nat \<times> world" where
  "copy_from_user off src n w =
     (n - min n (length src),
      log_event (Copy_from_user off n) (w\<lparr>mem := store_bytes off (take n src) (mem w)\<rparr>))"

section \<open>The driver\<close>

subsection \<open>\<^verbatim>\<open>tpm_i2c_read\<close>: the polling read\<close>

text \<open>
  The \<^verbatim>\<open>do { ... } while (trapdoor < trapdoor_limit)\<close> loop. It returns the last \<^verbatim>\<open>rc\<close>,
  the final \<^verbatim>\<open>trapdoor\<close> and the state.
\<close>

function xfer_loop :: "env \<Rightarrow> i2c_msg \<Rightarrow> nat \<Rightarrow> world \<Rightarrow> c_int \<times> nat \<times> world" where
  "xfer_loop e msg trapdoor w =
     (case i2c_transfer e msg w of (rc, w1) \<Rightarrow>
        if 0 < sint rc then (rc, trapdoor, w1)
        else if trapdoor + 1 < trapdoor_limit
             then xfer_loop e msg (trapdoor + 1) (msleep 5 w1)
             else (rc, trapdoor + 1, msleep 5 w1))"
  by pat_completeness auto
termination
  by (relation "measure (\<lambda>(e, msg, trapdoor, w). trapdoor_limit - trapdoor)") auto

text \<open>
  \<^verbatim>\<open>static u8 tpm_i2c_read(u8 *buffer, size_t len)\<close>. The result type is \<^verbatim>\<open>u8\<close>, so each
  returned \<^verbatim>\<open>int\<close> is converted to 8 bits. The initialiser of \<^verbatim>\<open>msg1\<close> stores the
  \<^verbatim>\<open>size_t\<close> \<^verbatim>\<open>len\<close> into the 16-bit field of the message. The function is entered with
  the buffer pointer given as an offset from \<^verbatim>\<open>tpm_dev.buf\<close>.
\<close>

definition tpm_i2c_read :: "env \<Rightarrow> nat \<Rightarrow> nat \<Rightarrow> world \<Rightarrow> u8 \<times> world" where
  "tpm_i2c_read e buffer len w0 =
     (let w = log_event (Call_tpm_i2c_read buffer len) w0;
          msg1 = \<lparr>msg_addr = client_addr e, msg_flags = I2C_M_RD,
                  msg_len = len mod 65536, msg_buf = buffer\<rparr>
      in if \<not> has_master_xfer e then (ucast (- EOPNOTSUPP), w)
         else (case xfer_loop e msg1 0 (log_event Lock_adapter w) of (rc, trapdoor, w2) \<Rightarrow>
                 let w3 = log_event Unlock_adapter w2
                 in if trapdoor_limit \<le> trapdoor then (ucast (- EFAULT), w3)
                    else (ucast rc, w3)))"

subsection \<open>\<^verbatim>\<open>tpm_tis_i2c_read\<close>: the response assembler\<close>

text \<open>
  \<^verbatim>\<open>expected = tpm_dev.buf[4]; expected = expected << 8; expected += tpm_dev.buf[5];\<close>
\<close>

definition decode_expected :: "(nat \<Rightarrow> u8) \<Rightarrow> c_int" where
  "decode_expected m = push_bit 8 (ucast (m 4)) + ucast (m 5)"

text \<open>
  \<^verbatim>\<open>tpm_tis_i2c_read(file, buf, count, offp)\<close>: \<open>room\<close> stands for the user pointer
  \<^verbatim>\<open>buf\<close> (the number of bytes writable there). The result is the returned value, the bytes
  that reached the caller, and the state. The status \<^verbatim>\<open>rc\<close> of either bus read is assigned
  and never looked at. Where the \<^verbatim>\<open>int\<close> \<^verbatim>\<open>expected\<close> is passed as a \<^verbatim>\<open>size_t\<close> it is read
  as an unsigned number.
\<close>

definition tpm_tis_i2c_read :: "env \<Rightarrow> nat \<Rightarrow> nat \<Rightarrow> world \<Rightarrow> int \<times> u8 list \<times> world" where
  "tpm_tis_i2c_read e room count w0 =
     (let w1 = memset 0 0 TPM_BUFSIZE w0 in
      case tpm_i2c_read e 0 TPM_HEADER_SIZE w1 of (rc, w2) \<Rightarrow>
        let expected = decode_expected (mem w2);
            w3 = (if sint expected \<le> int TPM_HEADER_SIZE then w2
                  else snd (tpm_i2c_read e 0 (unat expected) w2))
        in case copy_to_user room 0 (unat expected) w3 of (uncopied, out, w4) \<Rightarrow>
             if uncopied \<noteq> 0 then (sint (- EFAULT), out, w4)
             else (sint expected, out, w4))"

subsection \<open>\<^verbatim>\<open>tpm_tis_i2c_write\<close>: the write path\<close>

text \<open>
  \<^verbatim>\<open>tpm_tis_i2c_write(file, buf, count, offp)\<close>: \<open>src\<close> stands for the user pointer
  \<^verbatim>\<open>buf\<close> (the bytes readable there). The message is built before \<^verbatim>\<open>count\<close> is checked;
  the transfer is made without taking the adapter lock and without looking for
  \<^verbatim>\<open>master_xfer\<close>.
\<close>

definition tpm_tis_i2c_write :: "env \<Rightarrow> u8 list \<Rightarrow> nat \<Rightarrow> world \<Rightarrow> int \<times> world" where
  "tpm_tis_i2c_write e src count w0 =
     (let msg1 = \<lparr>msg_addr = client_addr e, msg_flags = I2C_M_WR,
                  msg_len = count mod 65536, msg_buf = 0\<rparr>
      in if TPM_BUFSIZE < count then (sint (- EINVAL), w0)
         else let w1 = memset 0 0 TPM_BUFSIZE w0 in
              case copy_from_user 0 src count w1 of (uncopied, w2) \<Rightarrow>
                if uncopied \<noteq> 0 then (sint (- EFAULT), w2)
                else (case i2c_transfer e msg1 w2 of (rc, w3) \<Rightarrow>
                        if sint rc \<le> 0 then (sint (- EIO), w3)
                        else (int count, w3)))"

section \<open>Notions used to state the properties\<close>

text \<open>
  One failed pass through the body of the polling loop: the transfer, then
  \<^verbatim>\<open>msleep(5)\<close>.
\<close>

definition retry_step :: "env \<Rightarrow> i2c_msg \<Rightarrow> world \<Rightarrow> world" where
  "retry_step e msg w = msleep 5 (snd (i2c_transfer e msg w))"

text \<open>The calls of \<^verbatim>\<open>tpm_i2c_read\<close> in a record of effects: buffer offset and length.\<close>

definition bus_reads :: "event list \<Rightarrow> (nat \<times> nat) list" where
  "bus_reads evs =
     concat (map (\<lambda>ev. case ev of Call_tpm_i2c_read b l \<Rightarrow> [(b, l)] | _ \<Rightarrow> []) evs)"

text \<open>An effect stays inside \<^verbatim>\<open>tpm_dev.buf\<close> when it touches no byte at or past \<^verbatim>\<open>TPM_BUFSIZE\<close>.\<close>

fun in_bounds :: "event \<Rightarrow> bool" where
  "in_bounds (Memset off n) = (off + n \<le> TPM_BUFSIZE)"
| "in_bounds (I2c_transfer d off n) = (off + n \<le> TPM_BUFSIZE)"
| "in_bounds (Copy_to_user off n) = (off + n \<le> TPM_BUFSIZE)"
| "in_bounds (Copy_from_user off n) = (off + n \<le> TPM_BUFSIZE)"
| "in_bounds (Call_tpm_i2c_read off n) = True"
| "in_bounds Lock_adapter = True"
| "in_bounds Unlock_adapter = True"
| "in_bounds (Msleep ms) = True"

text \<open>
  The state after the first two statements of \<^verbatim>\<open>tpm_tis_i2c_read\<close> (the \<^verbatim>\<open>memset\<close> and the
  header read), and the value of \<^verbatim>\<open>expected\<close> decoded there.
\<close>

definition header_phase :: "env \<Rightarrow> world \<Rightarrow> world" where
  "header_phase e w = snd (tpm_i2c_read e 0 TPM_HEADER_SIZE (memset 0 0 TPM_BUFSIZE w))"

definition total_length :: "env \<Rightarrow> world \<Rightarrow> c_int" where
  "total_length e w = decode_expected (mem (header_phase e w))"

subsection \<open>Concrete surroundings\<close>

definition zero_mem :: "nat \<Rightarrow> u8" where
  "zero_mem i = 0"

definition world_init :: world where
  "world_init = \<lparr>mem = zero_mem, n_xfer = 0, events = []\<rparr>"

text \<open>A device that answers every read with a header announcing 6 bytes in all.\<close>

definition bus_len6 :: "nat \<Rightarrow> c_int \<times> u8 list" where
  "bus_len6 k = (1, [0, 0, 0, 0, 0, 6])"

definition env_len6 :: env where
  "env_len6 = \<lparr>client_addr = 0x29, has_master_xfer = True, bus = bus_len6\<rparr>"

text \<open>A device whose header announces 30 bytes, and which then sends 30 bytes.\<close>

definition bus_len30 :: "nat \<Rightarrow> c_int \<times> u8 list" where
  "bus_len30 k = (1, [0, 0, 0, 0, 0, 30] @ replicate 24 0xAB)"

definition env_len30 :: env where
  "env_len30 = \<lparr>client_addr = 0x29, has_master_xfer = True, bus = bus_len30\<rparr>"

text \<open>A device whose header has \<open>0xFF\<close> at offsets 4 and 5.\<close>

definition bus_lenFFFF :: "nat \<Rightarrow> c_int \<times> u8 list" where
  "bus_lenFFFF k = (1, [0, 0, 0, 0, 0xFF, 0xFF])"

definition env_lenFFFF :: env where
  "env_lenFFFF = \<lparr>client_addr = 0x29, has_master_xfer = True, bus = bus_lenFFFF\<rparr>"

text \<open>A device that refuses every transfer (\<^verbatim>\<open>-EREMOTEIO\<close>) and stores nothing.\<close>

definition bus_nack :: "nat \<Rightarrow> c_int \<times> u8 list" where
  "bus_nack k = (- 121, [])"

definition env_nack :: env where
  "env_nack = \<lparr>client_addr = 0x29, has_master_xfer = True, bus = bus_nack\<rparr>"

text \<open>A bus whose transfers all succeed with the return value 242.\<close>

definition bus_rc242 :: "nat \<Rightarrow> c_int \<times> u8 list" where
  "bus_rc242 k = (242, [])"

definition env_rc242 :: env where
  "env_rc242 = \<lparr>client_addr = 0x29, has_master_xfer = True, bus = bus_rc242\<rparr>"

text \<open>An adapter without \<^verbatim>\<open>master_xfer\<close>.\<close>

definition env_no_xfer :: env where
  "env_no_xfer = \<lparr>client_addr = 0x29, has_master_xfer = False, bus = bus_nack\<rparr>"

text \<open>
  A device that refuses every transfer (\<^verbatim>\<open>-EREMOTEIO\<close>) although the adapter has already
  stored six bytes, the last of them 30, into the message buffer.
\<close>

definition bus_nack_header :: "nat \<Rightarrow> c_int \<times> u8 list" where
  "bus_nack_header k = (- 121, [0, 0, 0, 0, 0, 30])"

definition env_nack_header :: env where
  "env_nack_header = \<lparr>client_addr = 0x29, has_master_xfer = True, bus = bus_nack_header\<rparr>"

text \<open>
  A device that twice announces a response of 1025 bytes (header bytes \<open>0x04, 0x01\<close>): the
  first time it then sends 1025 bytes \<open>0xAB\<close>, the second time it refuses every further
  transfer.
\<close>

definition bus_stale :: "nat \<Rightarrow> c_int \<times> u8 list" where
  "bus_stale k =
     (if k = 0 then (1, [0, 0, 0, 0, 4, 1])
      else if k = 1 then (1, replicate 1025 0xAB)
      else if k = 2 then (1, [0, 0, 0, 0, 4, 1])
      else (- 121, []))"

definition env_stale :: env where
  "env_stale = \<lparr>client_addr = 0x29, has_master_xfer = True, bus = bus_stale\<rparr>"

section \<open>Properties of the kernel services\<close>

lemma events_log_event: "events (log_event ev w) = events w @ [ev]"
  by (simp add: log_event_def)

lemma n_xfer_log_event: "n_xfer (log_event ev w) = n_xfer w"
  by (simp add: log_event_def)

lemma mem_log_event: "mem (log_event ev w) = mem w"
  by (simp add: log_event_def)

lemma events_memset: "events (memset off c n w) = events w @ [Memset off n]"
  by (simp add: memset_def log_event_def)

lemma n_xfer_memset: "n_xfer (memset off c n w) = n_xfer w"
  by (simp add: memset_def log_event_def)

lemma mem_memset_zero: "i < n \<Longrightarrow> mem (memset 0 0 n w) i = 0"
  by (simp add: memset_def log_event_def store_bytes_def)

lemma n_xfer_msleep: "n_xfer (msleep ms w) = n_xfer w"
  by (simp add: msleep_def log_event_def)

lemma i2c_transfer_pair:
  "i2c_transfer e msg w = (fst (bus e (n_xfer w)), snd (i2c_transfer e msg w))"
  by (simp add: i2c_transfer_def split: prod.splits)

lemma fst_i2c_transfer: "fst (i2c_transfer e msg w) = fst (bus e (n_xfer w))"
  by (simp add: i2c_transfer_def split: prod.splits)

lemma n_xfer_i2c_transfer: "n_xfer (snd (i2c_transfer e msg w)) = Suc (n_xfer w)"
  by (simp add: i2c_transfer_def split: prod.splits)

lemma events_i2c_transfer:
  "events (snd (i2c_transfer e msg w)) =
     events w @ [I2c_transfer (msg_flags msg) (msg_buf msg) (msg_len msg)]"
  by (simp add: i2c_transfer_def split: prod.splits)

lemma mem_i2c_transfer_write:
  "msg_flags msg = I2C_M_WR \<Longrightarrow> mem (snd (i2c_transfer e msg w)) = mem w"
  by (cases "bus e (n_xfer w)") (simp add: i2c_transfer_def)

lemma store_bytes_Nil: "store_bytes off [] m = m"
  by (rule ext) (auto simp add: store_bytes_def)

lemma length_load_bytes: "length (load_bytes off n m) = n"
  by (simp add: load_bytes_def)

lemma events_copy_to_user:
  "events (snd (snd (copy_to_user room off n w))) = events w @ [Copy_to_user off n]"
  by (simp add: copy_to_user_def events_log_event)

lemma n_xfer_copy_from_user: "n_xfer (snd (copy_from_user off src n w)) = n_xfer w"
  by (simp add: copy_from_user_def log_event_def)

section \<open>The polling loop\<close>

declare xfer_loop.simps [simp del]

lemma xfer_loop_unfold:
  "xfer_loop e msg t w =
     (if 0 < sint (fst (bus e (n_xfer w))) then (fst (bus e (n_xfer w)), t, snd (i2c_transfer e msg w))
      else if t + 1 < trapdoor_limit
           then xfer_loop e msg (t + 1) (msleep 5 (snd (i2c_transfer e msg w)))
           else (fst (bus e (n_xfer w)), t + 1, msleep 5 (snd (i2c_transfer e msg w))))"
  by (subst xfer_loop.simps, subst i2c_transfer_pair) simp

lemma xfer_loop_success:
  "0 < sint (fst (bus e (n_xfer w))) \<Longrightarrow>
   xfer_loop e msg t w = (fst (bus e (n_xfer w)), t, snd (i2c_transfer e msg w))"
  by (subst xfer_loop_unfold) simp

lemma xfer_loop_retry:
  "sint (fst (bus e (n_xfer w))) \<le> 0 \<Longrightarrow> t + 1 < trapdoor_limit \<Longrightarrow>
   xfer_loop e msg t w = xfer_loop e msg (t + 1) (msleep 5 (snd (i2c_transfer e msg w)))"
  by (subst xfer_loop_unfold) simp

lemma xfer_loop_last:
  "sint (fst (bus e (n_xfer w))) \<le> 0 \<Longrightarrow> \<not> t + 1 < trapdoor_limit \<Longrightarrow>
   xfer_loop e msg t w = (fst (bus e (n_xfer w)), t + 1, msleep 5 (snd (i2c_transfer e msg w)))"
  by (subst xfer_loop_unfold) simp

lemma n_xfer_retry_step: "n_xfer (retry_step e msg w) = Suc (n_xfer w)"
  by (simp add: retry_step_def n_xfer_msleep n_xfer_i2c_transfer)

lemma n_xfer_retry_steps: "n_xfer ((retry_step e msg ^^ k) w) = n_xfer w + k"
  by (induction k) (simp_all add: n_xfer_retry_step)

lemma events_retry_step:
  "events (retry_step e msg w) =
     events w @ [I2c_transfer (msg_flags msg) (msg_buf msg) (msg_len msg), Msleep 5]"
  by (simp add: retry_step_def msleep_def log_event_def events_i2c_transfer)

lemma events_retry_steps:
  "events ((retry_step e msg ^^ k) w) =
     events w @ concat (replicate k [I2c_transfer (msg_flags msg) (msg_buf msg) (msg_len msg), Msleep 5])"
proof (induction k)
  case 0
  show ?case by simp
next
  case (Suc k)
  have "concat (replicate k [a, b]) @ [a, b] = [a, b] @ concat (replicate k [a, b])" for a b :: event
    by (induction k) simp_all
  with Suc show ?case by (simp add: events_retry_step)
qed

lemma mem_retry_step_no_data:
  "snd (bus e (n_xfer w)) = [] \<Longrightarrow> mem (retry_step e msg w) = mem w"
  by (cases "bus e (n_xfer w)")
    (simp add: retry_step_def msleep_def log_event_def i2c_transfer_def store_bytes_Nil
      split: xfer_dir.splits)

lemma mem_retry_steps_no_data:
  "(\<forall>i < k. snd (bus e (n_xfer w + i)) = []) \<Longrightarrow> mem ((retry_step e msg ^^ k) w) = mem w"
proof (induction k)
  case 0
  show ?case by simp
next
  case (Suc k)
  then have "mem ((retry_step e msg ^^ k) w) = mem w" by simp
  moreover have "snd (bus e (n_xfer ((retry_step e msg ^^ k) w))) = []"
    using Suc.prems by (simp add: n_xfer_retry_steps)
  ultimately show ?case by (simp add: mem_retry_step_no_data)
qed

lemma store_bytes_idem: "store_bytes off d (store_bytes off d m) = store_bytes off d m"
  by (rule ext) (simp add: store_bytes_def)

lemma mem_retry_step_read:
  "msg_flags msg = I2C_M_RD \<Longrightarrow>
   mem (retry_step e msg w) =
     store_bytes (msg_buf msg) (take (msg_len msg) (snd (bus e (n_xfer w)))) (mem w)"
  by (cases "bus e (n_xfer w)")
    (simp add: retry_step_def msleep_def log_event_def i2c_transfer_def)

lemma mem_retry_steps_same_data:
  assumes "msg_flags msg = I2C_M_RD"
  shows "(\<forall>i < Suc k. snd (bus e (n_xfer w + i)) = d) \<Longrightarrow>
     mem ((retry_step e msg ^^ Suc k) w) =
       store_bytes (msg_buf msg) (take (msg_len msg) d) (mem w)"
proof (induction k)
  case 0
  then show ?case by (simp add: mem_retry_step_read [OF assms])
next
  case (Suc k)
  define W where "W = (retry_step e msg ^^ Suc k) w"
  have unf: "(retry_step e msg ^^ Suc (Suc k)) w = retry_step e msg W"
    by (simp add: W_def)
  have "\<forall>i < Suc k. snd (bus e (n_xfer w + i)) = d"
    using Suc.prems by simp
  then have ih: "mem W = store_bytes (msg_buf msg) (take (msg_len msg) d) (mem w)"
    unfolding W_def by (rule Suc.IH)
  have nx: "n_xfer W = n_xfer w + Suc k"
    unfolding W_def by (rule n_xfer_retry_steps)
  have "Suc k < Suc (Suc k)" by simp
  with Suc.prems have "snd (bus e (n_xfer w + Suc k)) = d" by blast
  then have "snd (bus e (n_xfer W)) = d"
    by (simp only: nx)
  then have "mem (retry_step e msg W) =
      store_bytes (msg_buf msg) (take (msg_len msg) d) (mem W)"
    by (simp add: mem_retry_step_read [OF assms])
  then show ?case
    by (simp only: unf ih store_bytes_idem)
qed

subsection \<open>Every attempt fails, or there is a first attempt that succeeds\<close>

lemma xfer_loop_exhaust_steps:
  "trapdoor_limit - t = Suc k \<Longrightarrow>
   (\<forall>i < Suc k. sint (fst (bus e (n_xfer w + i))) \<le> 0) \<Longrightarrow>
   snd (xfer_loop e msg t w) = (trapdoor_limit, (retry_step e msg ^^ Suc k) w)"
proof (induction k arbitrary: t w)
  case 0
  then have f0: "sint (fst (bus e (n_xfer w))) \<le> 0" by simp
  from 0 have last: "\<not> t + 1 < trapdoor_limit" and eq: "t + 1 = trapdoor_limit" by arith+
  show ?case
    using eq by (simp add: xfer_loop_last [OF f0 last] retry_step_def)
next
  case (Suc k)
  from Suc.prems(2) have f0: "sint (fst (bus e (n_xfer w))) \<le> 0"
    by (metis add.right_neutral zero_less_Suc)
  from Suc.prems(1) have more: "t + 1 < trapdoor_limit" by arith
  let ?w' = "retry_step e msg w"
  have "trapdoor_limit - (t + 1) = Suc k" using Suc.prems(1) by arith
  moreover have "\<forall>i < Suc k. sint (fst (bus e (n_xfer ?w' + i))) \<le> 0"
  proof (intro allI impI)
    fix i assume "i < Suc k"
    then have "Suc i < Suc (Suc k)" by simp
    with Suc.prems(2) have "sint (fst (bus e (n_xfer w + Suc i))) \<le> 0" by blast
    then show "sint (fst (bus e (n_xfer ?w' + i))) \<le> 0" by (simp add: n_xfer_retry_step)
  qed
  ultimately have "snd (xfer_loop e msg (t + 1) ?w') =
      (trapdoor_limit, (retry_step e msg ^^ Suc k) ?w')"
    by (rule Suc.IH)
  then show ?case
    by (simp add: xfer_loop_retry [OF f0 more] retry_step_def [symmetric] funpow_swap1)
qed

lemma xfer_loop_exhaust:
  assumes "\<forall>i < trapdoor_limit. sint (fst (bus e (n_xfer w + i))) \<le> 0"
  shows "snd (xfer_loop e msg 0 w) = (trapdoor_limit, (retry_step e msg ^^ trapdoor_limit) w)"
proof -
  have "trapdoor_limit - 0 = Suc (trapdoor_limit - 1)" by (simp add: trapdoor_limit_def)
  moreover have "\<forall>i < Suc (trapdoor_limit - 1). sint (fst (bus e (n_xfer w + i))) \<le> 0"
    using assms by (simp add: trapdoor_limit_def)
  ultimately have "snd (xfer_loop e msg 0 w) =
      (trapdoor_limit, (retry_step e msg ^^ Suc (trapdoor_limit - 1)) w)"
    by (rule xfer_loop_exhaust_steps)
  moreover have "Suc (trapdoor_limit - 1) = trapdoor_limit" by (simp add: trapdoor_limit_def)
  ultimately show ?thesis by simp
qed

lemma xfer_loop_first_success:
  "t + j < trapdoor_limit \<Longrightarrow>
   (\<forall>i < j. sint (fst (bus e (n_xfer w + i))) \<le> 0) \<Longrightarrow>
   0 < sint (fst (bus e (n_xfer w + j))) \<Longrightarrow>
   xfer_loop e msg t w =
     (fst (bus e (n_xfer w + j)), t + j, snd (i2c_transfer e msg ((retry_step e msg ^^ j) w)))"
proof (induction j arbitrary: t w)
  case 0
  then show ?case by (simp add: xfer_loop_success)
next
  case (Suc j)
  from Suc.prems(2) have f0: "sint (fst (bus e (n_xfer w))) \<le> 0"
    by (metis add.right_neutral zero_less_Suc)
  from Suc.prems(1) have more: "t + 1 < trapdoor_limit" by arith
  let ?w' = "retry_step e msg w"
  have "t + 1 + j < trapdoor_limit" using Suc.prems(1) by arith
  moreover have "\<forall>i < j. sint (fst (bus e (n_xfer ?w' + i))) \<le> 0"
  proof (intro allI impI)
    fix i assume "i < j"
    then have "Suc i < Suc j" by simp
    with Suc.prems(2) have "sint (fst (bus e (n_xfer w + Suc i))) \<le> 0" by blast
    then show "sint (fst (bus e (n_xfer ?w' + i))) \<le> 0" by (simp add: n_xfer_retry_step)
  qed
  moreover have "0 < sint (fst (bus e (n_xfer ?w' + j)))"
    using Suc.prems(3) by (simp add: n_xfer_retry_step)
  ultimately have "xfer_loop e msg (t + 1) ?w' =
     (fst (bus e (n_xfer ?w' + j)), t + 1 + j, snd (i2c_transfer e msg ((retry_step e msg ^^ j) ?w')))"
    by (rule Suc.IH)
  then show ?case
    by (simp add: xfer_loop_retry [OF f0 more] retry_step_def [symmetric] funpow_swap1
        n_xfer_retry_step)
qed

lemma xfer_loop_cases:
  obtains (success) j where "j < trapdoor_limit"
      and "xfer_loop e msg 0 w =
        (fst (bus e (n_xfer w + j)), j, snd (i2c_transfer e msg ((retry_step e msg ^^ j) w)))"
      and "0 < sint (fst (bus e (n_xfer w + j)))"
      and "\<forall>i < j. sint (fst (bus e (n_xfer w + i))) \<le> 0"
    | (exhausted) "snd (xfer_loop e msg 0 w) = (trapdoor_limit, (retry_step e msg ^^ trapdoor_limit) w)"
      and "\<forall>i < trapdoor_limit. sint (fst (bus e (n_xfer w + i))) \<le> 0"
proof (cases "\<exists>j < trapdoor_limit. 0 < sint (fst (bus e (n_xfer w + j)))")
  case True
  then have "\<exists>j. (j < trapdoor_limit \<and> 0 < sint (fst (bus e (n_xfer w + j)))) \<and>
      (\<forall>i < j. \<not> (i < trapdoor_limit \<and> 0 < sint (fst (bus e (n_xfer w + i)))))"
    by (subst exists_least_iff [symmetric]) simp
  then obtain j where jp: "j < trapdoor_limit \<and> 0 < sint (fst (bus e (n_xfer w + j)))"
    and least: "\<forall>i < j. \<not> (i < trapdoor_limit \<and> 0 < sint (fst (bus e (n_xfer w + i))))"
    by blast
  have before: "\<forall>i < j. sint (fst (bus e (n_xfer w + i))) \<le> 0"
  proof (intro allI impI)
    fix i assume ij: "i < j"
    with least have "\<not> (i < trapdoor_limit \<and> 0 < sint (fst (bus e (n_xfer w + i))))"
      by blast
    moreover from ij jp have "i < trapdoor_limit" by simp
    ultimately show "sint (fst (bus e (n_xfer w + i))) \<le> 0" by simp
  qed
  have "xfer_loop e msg 0 w =
        (fst (bus e (n_xfer w + j)), 0 + j, snd (i2c_transfer e msg ((retry_step e msg ^^ j) w)))"
    using jp before by (intro xfer_loop_first_success) simp_all
  then have "xfer_loop e msg 0 w =
        (fst (bus e (n_xfer w + j)), j, snd (i2c_transfer e msg ((retry_step e msg ^^ j) w)))"
    by simp
  with jp before show ?thesis by (auto intro: success [of j])
next
  case False
  have all: "\<forall>i < trapdoor_limit. sint (fst (bus e (n_xfer w + i))) \<le> 0"
  proof (intro allI impI)
    fix i assume a: "i < trapdoor_limit"
    show "sint (fst (bus e (n_xfer w + i))) \<le> 0"
    proof (rule ccontr)
      assume "\<not> sint (fst (bus e (n_xfer w + i))) \<le> 0"
      then have "0 < sint (fst (bus e (n_xfer w + i)))" by simp
      with a have "\<exists>j < trapdoor_limit. 0 < sint (fst (bus e (n_xfer w + j)))" by blast
      with False show False by contradiction
    qed
  qed
  have "snd (xfer_loop e msg 0 w) = (trapdoor_limit, (retry_step e msg ^^ trapdoor_limit) w)"
    using all by (rule xfer_loop_exhaust)
  then show ?thesis using all by (rule exhausted)
qed

subsection \<open>The effects recorded by the loop\<close>

lemma bus_reads_append: "bus_reads (xs @ ys) = bus_reads xs @ bus_reads ys"
  by (simp add: bus_reads_def)

lemma bus_reads_Nil: "bus_reads [] = []"
  by (simp add: bus_reads_def)

lemma bus_reads_Cons:
  "bus_reads (ev # evs) =
     (case ev of Call_tpm_i2c_read b l \<Rightarrow> [(b, l)] | _ \<Rightarrow> []) @ bus_reads evs"
  by (simp add: bus_reads_def)

lemmas bus_reads_simps = bus_reads_Nil bus_reads_Cons bus_reads_append

lemma bus_reads_retry_pairs:
  "bus_reads (concat (replicate k [I2c_transfer d b l, Msleep ms])) = []"
  by (induction k) (simp_all add: bus_reads_simps)

lemma xfer_loop_bus_reads:
  "bus_reads (events (snd (snd (xfer_loop e msg 0 w)))) = bus_reads (events w)"
proof (cases rule: xfer_loop_cases [of e msg w])
  case (success j)
  then show ?thesis
    by (simp add: events_i2c_transfer events_retry_steps bus_reads_simps bus_reads_retry_pairs)
next
  case exhausted
  then show ?thesis
    by (simp add: events_retry_steps bus_reads_append bus_reads_retry_pairs)
qed

lemma xfer_loop_events_extend:
  "\<exists>xs. events (snd (snd (xfer_loop e msg 0 w))) = events w @ xs"
proof (cases rule: xfer_loop_cases [of e msg w])
  case (success j)
  then show ?thesis by (simp add: events_i2c_transfer events_retry_steps)
next
  case exhausted
  then show ?thesis by (simp add: events_retry_steps)
qed

lemma in_bounds_retry_pairs:
  "off + n \<le> TPM_BUFSIZE \<Longrightarrow>
   list_all in_bounds (concat (replicate k [I2c_transfer d off n, Msleep ms]))"
  by (induction k) simp_all

lemma xfer_loop_in_bounds:
  assumes "msg_buf msg + msg_len msg \<le> TPM_BUFSIZE"
  shows "\<exists>xs. events (snd (snd (xfer_loop e msg 0 w))) = events w @ xs \<and> list_all in_bounds xs"
proof (cases rule: xfer_loop_cases [of e msg w])
  case (success j)
  then show ?thesis
    using assms by (simp add: events_i2c_transfer events_retry_steps in_bounds_retry_pairs)
next
  case exhausted
  then show ?thesis
    using assms by (simp add: events_retry_steps in_bounds_retry_pairs)
qed

section \<open>The polling read \<^verbatim>\<open>tpm_i2c_read\<close>\<close>

lemma tpm_i2c_read_not_supported:
  "\<not> has_master_xfer e \<Longrightarrow>
   tpm_i2c_read e b l w = (161, log_event (Call_tpm_i2c_read b l) w)"
  by (simp add: tpm_i2c_read_def Let_def EOPNOTSUPP_def)

lemma tpm_i2c_read_exhaust:
  assumes "has_master_xfer e"
    and "\<forall>i < trapdoor_limit. sint (fst (bus e (n_xfer w + i))) \<le> 0"
  shows "tpm_i2c_read e b l w =
     (242, log_event Unlock_adapter
        ((retry_step e \<lparr>msg_addr = client_addr e, msg_flags = I2C_M_RD,
                         msg_len = l mod 65536, msg_buf = b\<rparr> ^^ trapdoor_limit)
           (log_event Lock_adapter (log_event (Call_tpm_i2c_read b l) w))))"
proof -
  let ?msg = "\<lparr>msg_addr = client_addr e, msg_flags = I2C_M_RD, msg_len = l mod 65536, msg_buf = b\<rparr>"
  let ?w1 = "log_event Lock_adapter (log_event (Call_tpm_i2c_read b l) w)"
  have "\<forall>i < trapdoor_limit. sint (fst (bus e (n_xfer ?w1 + i))) \<le> 0"
    using assms(2) by (simp add: n_xfer_log_event)
  then have "snd (xfer_loop e ?msg 0 ?w1) = (trapdoor_limit, (retry_step e ?msg ^^ trapdoor_limit) ?w1)"
    by (rule xfer_loop_exhaust)
  then show ?thesis
    using assms(1)
    by (cases "xfer_loop e ?msg 0 ?w1") (simp add: tpm_i2c_read_def Let_def EFAULT_def)
qed

lemma tpm_i2c_read_first_success:
  assumes "has_master_xfer e" and "j < trapdoor_limit"
    and "\<forall>i < j. sint (fst (bus e (n_xfer w + i))) \<le> 0"
    and "0 < sint (fst (bus e (n_xfer w + j)))"
  shows "tpm_i2c_read e b l w =
     (ucast (fst (bus e (n_xfer w + j))),
      log_event Unlock_adapter
        (snd (i2c_transfer e \<lparr>msg_addr = client_addr e, msg_flags = I2C_M_RD,
                               msg_len = l mod 65536, msg_buf = b\<rparr>
           ((retry_step e \<lparr>msg_addr = client_addr e, msg_flags = I2C_M_RD,
                            msg_len = l mod 65536, msg_buf = b\<rparr> ^^ j)
              (log_event Lock_adapter (log_event (Call_tpm_i2c_read b l) w))))))"
proof -
  let ?msg = "\<lparr>msg_addr = client_addr e, msg_flags = I2C_M_RD, msg_len = l mod 65536, msg_buf = b\<rparr>"
  let ?w1 = "log_event Lock_adapter (log_event (Call_tpm_i2c_read b l) w)"
  have nx: "n_xfer ?w1 = n_xfer w" by (simp add: n_xfer_log_event)
  have "xfer_loop e ?msg 0 ?w1 =
     (fst (bus e (n_xfer ?w1 + j)), 0 + j, snd (i2c_transfer e ?msg ((retry_step e ?msg ^^ j) ?w1)))"
    using assms(2-4) by (intro xfer_loop_first_success) (simp_all add: nx)
  then show ?thesis
    using assms(1,2) by (simp add: tpm_i2c_read_def Let_def nx)
qed

lemma tpm_i2c_read_first_try:
  assumes "has_master_xfer e" and "0 < sint (fst (bus e (n_xfer w)))"
  shows "tpm_i2c_read e b l w =
     (ucast (fst (bus e (n_xfer w))),
      w\<lparr>mem := store_bytes b (take (l mod 65536) (snd (bus e (n_xfer w)))) (mem w),
        n_xfer := Suc (n_xfer w),
        events := events w @ [Call_tpm_i2c_read b l, Lock_adapter,
                              I2c_transfer I2C_M_RD b (l mod 65536), Unlock_adapter]\<rparr>)"
proof -
  have "0 < trapdoor_limit" by (simp add: trapdoor_limit_def)
  then have "tpm_i2c_read e b l w =
     (ucast (fst (bus e (n_xfer w + 0))),
      log_event Unlock_adapter
        (snd (i2c_transfer e \<lparr>msg_addr = client_addr e, msg_flags = I2C_M_RD,
                               msg_len = l mod 65536, msg_buf = b\<rparr>
           ((retry_step e \<lparr>msg_addr = client_addr e, msg_flags = I2C_M_RD,
                            msg_len = l mod 65536, msg_buf = b\<rparr> ^^ 0)
              (log_event Lock_adapter (log_event (Call_tpm_i2c_read b l) w))))))"
    using assms by (intro tpm_i2c_read_first_success) simp_all
  then show ?thesis
    by (cases "bus e (n_xfer w)") (simp add: i2c_transfer_def log_event_def)
qed

lemma tpm_i2c_read_stops_at_first_success:
  assumes "has_master_xfer e" and "j < trapdoor_limit"
    and "\<forall>i < j. sint (fst (bus e (n_xfer w + i))) \<le> 0"
    and "0 < sint (fst (bus e (n_xfer w + j)))"
  shows "fst (tpm_i2c_read e b l w) = ucast (fst (bus e (n_xfer w + j)))"
    and "n_xfer (snd (tpm_i2c_read e b l w)) = n_xfer w + j + 1"
  by (simp_all add: tpm_i2c_read_first_success [OF assms] n_xfer_log_event
      n_xfer_i2c_transfer n_xfer_retry_steps)

lemma tpm_i2c_read_bus_reads:
  "bus_reads (events (snd (tpm_i2c_read e b l w))) = bus_reads (events w) @ [(b, l)]"
proof (cases "has_master_xfer e")
  case False
  then show ?thesis
    by (simp add: tpm_i2c_read_def Let_def events_log_event bus_reads_simps)
next
  case True
  let ?msg = "\<lparr>msg_addr = client_addr e, msg_flags = I2C_M_RD, msg_len = l mod 65536, msg_buf = b\<rparr>"
  let ?w1 = "log_event Lock_adapter (log_event (Call_tpm_i2c_read b l) w)"
  obtain rc t w2 where loop: "xfer_loop e ?msg 0 ?w1 = (rc, t, w2)"
    by (cases "xfer_loop e ?msg 0 ?w1") auto
  have "bus_reads (events (snd (snd (xfer_loop e ?msg 0 ?w1)))) = bus_reads (events ?w1)"
    by (rule xfer_loop_bus_reads)
  then have "bus_reads (events w2) = bus_reads (events w) @ [(b, l)]"
    by (simp add: loop events_log_event bus_reads_simps)
  then show ?thesis
    using True
    by (simp add: tpm_i2c_read_def Let_def loop events_log_event bus_reads_simps)
qed

lemma tpm_i2c_read_events_extend:
  "\<exists>xs. events (snd (tpm_i2c_read e b l w)) = events w @ xs"
proof (cases "has_master_xfer e")
  case False
  then show ?thesis by (simp add: tpm_i2c_read_not_supported events_log_event)
next
  case True
  let ?msg = "\<lparr>msg_addr = client_addr e, msg_flags = I2C_M_RD, msg_len = l mod 65536, msg_buf = b\<rparr>"
  let ?w1 = "log_event Lock_adapter (log_event (Call_tpm_i2c_read b l) w)"
  obtain rc t w2 where loop: "xfer_loop e ?msg 0 ?w1 = (rc, t, w2)"
    by (cases "xfer_loop e ?msg 0 ?w1") auto
  obtain xs where "events (snd (snd (xfer_loop e ?msg 0 ?w1))) = events ?w1 @ xs"
    using xfer_loop_events_extend by blast
  then have "events w2 = events w @ [Call_tpm_i2c_read b l, Lock_adapter] @ xs"
    by (simp add: loop events_log_event)
  then show ?thesis
    using True by (simp add: tpm_i2c_read_def Let_def loop events_log_event)
qed

lemma tpm_i2c_read_in_bounds:
  assumes "b + l mod 65536 \<le> TPM_BUFSIZE"
  shows "\<exists>xs. events (snd (tpm_i2c_read e b l w)) = events w @ xs \<and> list_all in_bounds xs"
proof (cases "has_master_xfer e")
  case False
  then show ?thesis by (simp add: tpm_i2c_read_not_supported events_log_event)
next
  case True
  let ?msg = "\<lparr>msg_addr = client_addr e, msg_flags = I2C_M_RD, msg_len = l mod 65536, msg_buf = b\<rparr>"
  let ?w1 = "log_event Lock_adapter (log_event (Call_tpm_i2c_read b l) w)"
  obtain rc t w2 where loop: "xfer_loop e ?msg 0 ?w1 = (rc, t, w2)"
    by (cases "xfer_loop e ?msg 0 ?w1") auto
  have "msg_buf ?msg + msg_len ?msg \<le> TPM_BUFSIZE" using assms by simp
  then obtain xs where "events (snd (snd (xfer_loop e ?msg 0 ?w1))) = events ?w1 @ xs"
    and "list_all in_bounds xs"
    using xfer_loop_in_bounds by blast
  then have "events w2 = events w @ [Call_tpm_i2c_read b l, Lock_adapter] @ xs"
    and "list_all in_bounds ([Call_tpm_i2c_read b l, Lock_adapter] @ xs @ [Unlock_adapter])"
    by (simp_all add: loop events_log_event)
  then show ?thesis
    using True by (simp add: tpm_i2c_read_def Let_def loop events_log_event)
qed

lemma tpm_i2c_read_exhaust_same_data:
  assumes "has_master_xfer e"
    and "\<forall>i < trapdoor_limit. sint (fst (bus e (n_xfer w + i))) \<le> 0
           \<and> snd (bus e (n_xfer w + i)) = d"
  shows "fst (tpm_i2c_read e b l w) = 242"
    and "mem (snd (tpm_i2c_read e b l w)) = store_bytes b (take (l mod 65536) d) (mem w)"
    and "n_xfer (snd (tpm_i2c_read e b l w)) = n_xfer w + trapdoor_limit"
proof -
  let ?msg = "\<lparr>msg_addr = client_addr e, msg_flags = I2C_M_RD,
                msg_len = l mod 65536, msg_buf = b\<rparr>"
  let ?w1 = "log_event Lock_adapter (log_event (Call_tpm_i2c_read b l) w)"
  have nx: "n_xfer ?w1 = n_xfer w" by (simp add: n_xfer_log_event)
  have fails: "\<forall>i < trapdoor_limit. sint (fst (bus e (n_xfer w + i))) \<le> 0"
    using assms(2) by simp
  have rd: "tpm_i2c_read e b l w =
     (242, log_event Unlock_adapter ((retry_step e ?msg ^^ trapdoor_limit) ?w1))"
    using assms(1) fails by (rule tpm_i2c_read_exhaust)
  have lim: "trapdoor_limit = Suc (trapdoor_limit - 1)" by (simp add: trapdoor_limit_def)
  have "\<forall>i < Suc (trapdoor_limit - 1). snd (bus e (n_xfer ?w1 + i)) = d"
    using assms(2) by (simp add: nx trapdoor_limit_def)
  then have "mem ((retry_step e ?msg ^^ Suc (trapdoor_limit - 1)) ?w1) =
      store_bytes (msg_buf ?msg) (take (msg_len ?msg) d) (mem ?w1)"
    by (intro mem_retry_steps_same_data) simp_all
  then have m: "mem ((retry_step e ?msg ^^ trapdoor_limit) ?w1) =
      store_bytes b (take (l mod 65536) d) (mem w)"
    using lim by (simp add: mem_log_event)
  show "fst (tpm_i2c_read e b l w) = 242" by (simp add: rd)
  show "mem (snd (tpm_i2c_read e b l w)) = store_bytes b (take (l mod 65536) d) (mem w)"
    by (simp add: rd mem_log_event m)
  show "n_xfer (snd (tpm_i2c_read e b l w)) = n_xfer w + trapdoor_limit"
    by (simp add: rd n_xfer_log_event n_xfer_retry_steps)
qed

section \<open>The decoding of \<^verbatim>\<open>expected\<close>\<close>

lemma uint_decode: "uint (decode_expected m) = uint (m 4) * 256 + uint (m 5)"
proof -
  have a: "uint (m 4) < 256" using uint_bounded [of "m 4"] by simp
  have b: "uint (m 5) < 256" using uint_bounded [of "m 5"] by simp
  have a0: "0 \<le> uint (m 4)" and b0: "0 \<le> uint (m 5)" by simp_all
  have "uint (decode_expected m) = (uint (m 4) * 256 + uint (m 5)) mod 2 ^ 32"
    unfolding decode_expected_def
    by (simp add: push_bit_eq_mult uint_word_ariths uint_up_ucast is_up mod_simps)
  also have "\<dots> = uint (m 4) * 256 + uint (m 5)"
    using a b a0 b0 by (intro mod_pos_pos_trivial) auto
  finally show ?thesis .
qed

lemma decode_range: "0 \<le> uint (decode_expected m) \<and> uint (decode_expected m) \<le> 65535"
proof -
  have a: "uint (m 4) < 256" using uint_bounded [of "m 4"] by simp
  have b: "uint (m 5) < 256" using uint_bounded [of "m 5"] by simp
  show ?thesis using a b by (simp add: uint_decode)
qed

lemma sint_decode: "sint (decode_expected m) = uint (m 4) * 256 + uint (m 5)"
proof -
  have "sint (decode_expected m) = signed_take_bit 31 (uint (decode_expected m))"
    by (simp add: sint_uint)
  also have "\<dots> = uint (decode_expected m)"
  proof (rule signed_take_bit_int_eq_self)
    show "- (2 ^ 31) \<le> uint (decode_expected m)"
      by (rule order_trans [of _ 0]) simp_all
    show "uint (decode_expected m) < 2 ^ 31"
      using decode_range [of m] by simp
  qed
  finally show ?thesis by (simp add: uint_decode)
qed

lemma unat_decode: "unat (decode_expected m) = unat (m 4) * 256 + unat (m 5)"
proof -
  have "int (unat (decode_expected m)) = int (unat (m 4) * 256 + unat (m 5))"
    by (simp add: uint_decode)
  then show ?thesis by (rule int_int_eq [THEN iffD1])
qed

lemma total_length_nonneg: "sint (total_length e w) = int (unat (total_length e w))"
  by (simp add: total_length_def sint_decode unat_decode)

lemma total_length_short: "sint (total_length e w) \<le> 6 \<longleftrightarrow> unat (total_length e w) \<le> 6"
  using total_length_nonneg [of e w] by linarith

section \<open>The read path \<^verbatim>\<open>tpm_tis_i2c_read\<close>\<close>

lemma tpm_tis_i2c_read_unfold:
  "tpm_tis_i2c_read e room count w =
     (if room < unat (total_length e w) then - 14 else sint (total_length e w),
      load_bytes 0 (min (unat (total_length e w)) room)
        (mem (if sint (total_length e w) \<le> 6 then header_phase e w
              else snd (tpm_i2c_read e 0 (unat (total_length e w)) (header_phase e w)))),
      log_event (Copy_to_user 0 (unat (total_length e w)))
        (if sint (total_length e w) \<le> 6 then header_phase e w
         else snd (tpm_i2c_read e 0 (unat (total_length e w)) (header_phase e w))))"
  by (cases "tpm_i2c_read e 0 TPM_HEADER_SIZE (memset 0 0 TPM_BUFSIZE w)")
    (auto simp add: tpm_tis_i2c_read_def Let_def total_length_def header_phase_def
      copy_to_user_def EFAULT_def TPM_HEADER_SIZE_def)

lemma tpm_tis_i2c_read_unfold_nat:
  "tpm_tis_i2c_read e room count w =
     (if room < unat (total_length e w) then - 14 else int (unat (total_length e w)),
      load_bytes 0 (min (unat (total_length e w)) room)
        (mem (if unat (total_length e w) \<le> 6 then header_phase e w
              else snd (tpm_i2c_read e 0 (unat (total_length e w)) (header_phase e w)))),
      log_event (Copy_to_user 0 (unat (total_length e w)))
        (if unat (total_length e w) \<le> 6 then header_phase e w
         else snd (tpm_i2c_read e 0 (unat (total_length e w)) (header_phase e w))))"
  by (simp only: tpm_tis_i2c_read_unfold total_length_short) (simp only: total_length_nonneg)

lemma tpm_tis_i2c_read_last_event:
  "last (events (snd (snd (tpm_tis_i2c_read e room count w)))) =
     Copy_to_user 0 (unat (total_length e w))"
  by (simp add: tpm_tis_i2c_read_def Let_def total_length_def header_phase_def
      copy_to_user_def events_log_event split: prod.splits)

lemma header_phase_bus_reads:
  "bus_reads (events (header_phase e w)) = bus_reads (events w) @ [(0, TPM_HEADER_SIZE)]"
  by (simp add: header_phase_def tpm_i2c_read_bus_reads memset_def events_log_event
      bus_reads_simps)

lemma header_phase_exhaust:
  assumes "has_master_xfer e"
    and "\<forall>i < trapdoor_limit. sint (fst (bus e (n_xfer w + i))) \<le> 0
           \<and> snd (bus e (n_xfer w + i)) = []"
  shows "fst (tpm_i2c_read e 0 TPM_HEADER_SIZE (memset 0 0 TPM_BUFSIZE w)) = 242"
    and "mem (header_phase e w) = mem (memset 0 0 TPM_BUFSIZE w)"
    and "n_xfer (header_phase e w) = n_xfer w + trapdoor_limit"
proof -
  let ?w1 = "memset 0 0 TPM_BUFSIZE w"
  let ?msg = "\<lparr>msg_addr = client_addr e, msg_flags = I2C_M_RD,
                msg_len = TPM_HEADER_SIZE mod 65536, msg_buf = 0\<rparr>"
  let ?w1' = "log_event Lock_adapter (log_event (Call_tpm_i2c_read 0 TPM_HEADER_SIZE) ?w1)"
  have nx: "n_xfer ?w1 = n_xfer w" by (simp add: n_xfer_memset)
  have nx': "n_xfer ?w1' = n_xfer w" by (simp add: n_xfer_memset n_xfer_log_event)
  have fails: "\<forall>i < trapdoor_limit. sint (fst (bus e (n_xfer ?w1 + i))) \<le> 0"
    using assms(2) by (simp add: nx)
  have rd: "tpm_i2c_read e 0 TPM_HEADER_SIZE ?w1 =
     (242, log_event Unlock_adapter ((retry_step e ?msg ^^ trapdoor_limit) ?w1'))"
    using assms(1) fails by (rule tpm_i2c_read_exhaust)
  have nodata: "\<forall>i < trapdoor_limit. snd (bus e (n_xfer ?w1' + i)) = []"
    using assms(2) by (simp add: nx')
  show "fst (tpm_i2c_read e 0 TPM_HEADER_SIZE ?w1) = 242"
    by (simp add: rd)
  show "mem (header_phase e w) = mem ?w1"
    by (simp add: header_phase_def rd mem_log_event mem_retry_steps_no_data [OF nodata])
  show "n_xfer (header_phase e w) = n_xfer w + trapdoor_limit"
    by (simp add: header_phase_def rd n_xfer_log_event n_xfer_retry_steps n_xfer_memset)
qed

lemma header_phase_first_try:
  assumes "has_master_xfer e" and "0 < sint (fst (bus e (n_xfer w)))"
  shows "header_phase e w =
     w\<lparr>mem := store_bytes 0 (take 6 (snd (bus e (n_xfer w))))
               (store_bytes 0 (replicate 1024 0) (mem w)),
       n_xfer := Suc (n_xfer w),
       events := events w @ [Memset 0 1024, Call_tpm_i2c_read 0 6, Lock_adapter,
                             I2c_transfer I2C_M_RD 0 6, Unlock_adapter]\<rparr>"
proof -
  have "0 < sint (fst (bus e (n_xfer (memset 0 0 TPM_BUFSIZE w))))"
    using assms(2) by (simp add: n_xfer_memset)
  from tpm_i2c_read_first_try [OF assms(1) this, of 0 TPM_HEADER_SIZE]
  show ?thesis
    by (simp add: header_phase_def memset_def log_event_def TPM_HEADER_SIZE_def TPM_BUFSIZE_def)
qed

lemma n_xfer_header_phase_first_try:
  "has_master_xfer e \<Longrightarrow> 0 < sint (fst (bus e (n_xfer w))) \<Longrightarrow>
   n_xfer (header_phase e w) = Suc (n_xfer w)"
  by (simp add: header_phase_first_try)

lemma total_length_first_try:
  assumes "has_master_xfer e" and "0 < sint (fst (bus e (n_xfer w)))"
    and "snd (bus e (n_xfer w)) = b0 # b1 # b2 # b3 # b4 # b5 # rest"
  shows "unat (total_length e w) = unat b4 * 256 + unat b5"
  by (simp add: total_length_def unat_decode header_phase_first_try [OF assms(1,2)] assms(3)
      store_bytes_def)

lemma total_length_len6: "unat (total_length env_len6 world_init) = 6"
  by (subst total_length_first_try [where ?b4.0 = 0 and ?b5.0 = 6 and rest = "[]"])
    (simp_all add: env_len6_def bus_len6_def world_init_def)

lemma total_length_len30: "unat (total_length env_len30 world_init) = 30"
  by (subst total_length_first_try [where ?b4.0 = 0 and ?b5.0 = 30 and rest = "replicate 24 0xAB"])
    (simp_all add: env_len30_def bus_len30_def world_init_def)

lemma total_length_lenFFFF: "unat (total_length env_lenFFFF world_init) = 65535"
  by (subst total_length_first_try [where ?b4.0 = 255 and ?b5.0 = 255 and rest = "[]"])
    (simp_all add: env_lenFFFF_def bus_lenFFFF_def world_init_def)

lemma events_read_first:
  "take (Suc (length (events w))) (events (snd (snd (tpm_tis_i2c_read e room count w)))) =
     events w @ [Memset 0 TPM_BUFSIZE]"
proof -
  let ?w1 = "memset 0 0 TPM_BUFSIZE w"
  obtain xs where hp: "events (header_phase e w) = events ?w1 @ xs"
    unfolding header_phase_def using tpm_i2c_read_events_extend by blast
  obtain ys where second:
    "events (snd (tpm_i2c_read e 0 (unat (total_length e w)) (header_phase e w))) =
       events (header_phase e w) @ ys"
    using tpm_i2c_read_events_extend by blast
  show ?thesis
    by (simp add: tpm_tis_i2c_read_unfold_nat events_log_event second hp events_memset)
qed

lemma read_forgets_buffer:
  assumes "\<forall>i. TPM_BUFSIZE \<le> i \<longrightarrow> m1 i = m2 i"
  shows "tpm_tis_i2c_read e room count (w\<lparr>mem := m1\<rparr>) =
     tpm_tis_i2c_read e room count (w\<lparr>mem := m2\<rparr>)"
proof -
  have "store_bytes 0 (replicate TPM_BUFSIZE 0) m1 = store_bytes 0 (replicate TPM_BUFSIZE 0) m2"
    using assms by (auto simp add: store_bytes_def fun_eq_iff)
  then have "memset 0 0 TPM_BUFSIZE (w\<lparr>mem := m1\<rparr>) = memset 0 0 TPM_BUFSIZE (w\<lparr>mem := m2\<rparr>)"
    by (simp add: memset_def log_event_def)
  then show ?thesis
    by (simp add: tpm_tis_i2c_read_def)
qed

text \<open>
  The effects of a read stay inside the buffer exactly when the decoded \<^verbatim>\<open>expected\<close> is at
  most \<^verbatim>\<open>TPM_BUFSIZE\<close>.
\<close>

lemma read_in_bounds:
  assumes "unat (total_length e w) \<le> TPM_BUFSIZE"
  shows "\<exists>xs. events (snd (snd (tpm_tis_i2c_read e room count w))) = events w @ xs
           \<and> list_all in_bounds xs"
proof -
  let ?n = "unat (total_length e w)"
  have six: "0 + TPM_HEADER_SIZE mod 65536 \<le> TPM_BUFSIZE"
    by (simp add: TPM_HEADER_SIZE_def TPM_BUFSIZE_def)
  obtain xs where hp: "events (header_phase e w) = events (memset 0 0 TPM_BUFSIZE w) @ xs"
    and xs: "list_all in_bounds xs"
    unfolding header_phase_def using tpm_i2c_read_in_bounds [OF six] by blast
  have "?n mod 65536 \<le> ?n" by simp
  with assms have "0 + ?n mod 65536 \<le> TPM_BUFSIZE" by simp
  then obtain ys where second:
    "events (snd (tpm_i2c_read e 0 ?n (header_phase e w))) = events (header_phase e w) @ ys"
    and ys: "list_all in_bounds ys"
    using tpm_i2c_read_in_bounds by blast
  show ?thesis
    using assms xs ys
    by (simp add: tpm_tis_i2c_read_unfold_nat events_log_event second hp events_memset)
qed

lemma read_out_of_bounds:
  assumes "TPM_BUFSIZE < unat (total_length e w)"
  shows "\<not> list_all in_bounds (events (snd (snd (tpm_tis_i2c_read e room count w))))"
  using assms by (simp add: tpm_tis_i2c_read_unfold_nat events_log_event)

lemma read_raw_transfers:
  assumes "has_master_xfer e"
    and "0 < sint (fst (bus e (n_xfer w)))" and "0 < sint (fst (bus e (Suc (n_xfer w))))"
  shows "n_xfer (snd (snd (tpm_tis_i2c_read e room count w))) =
     n_xfer w + (if unat (total_length e w) \<le> 6 then 1 else 2)"
proof -
  have nx: "n_xfer (header_phase e w) = Suc (n_xfer w)"
    using assms(1,2) by (rule n_xfer_header_phase_first_try)
  have "0 < sint (fst (bus e (n_xfer (header_phase e w))))"
    using assms(3) by (simp add: nx)
  from tpm_i2c_read_first_try [OF assms(1) this]
  show ?thesis
    by (simp add: tpm_tis_i2c_read_unfold_nat n_xfer_log_event nx)
qed

lemma header_phase_nack_header:
  "fst (tpm_i2c_read env_nack_header 0 TPM_HEADER_SIZE (memset 0 0 TPM_BUFSIZE world_init)) = 242"
  "mem (header_phase env_nack_header world_init) =
     store_bytes 0 [0, 0, 0, 0, 0, 30] (store_bytes 0 (replicate 1024 0) zero_mem)"
  "n_xfer (header_phase env_nack_header world_init) = trapdoor_limit"
proof -
  have m: "has_master_xfer env_nack_header" by (simp add: env_nack_header_def)
  have f: "\<forall>i < trapdoor_limit.
      sint (fst (bus env_nack_header (n_xfer (memset 0 0 TPM_BUFSIZE world_init) + i))) \<le> 0
      \<and> snd (bus env_nack_header (n_xfer (memset 0 0 TPM_BUFSIZE world_init) + i)) =
          [0, 0, 0, 0, 0, 30]"
    by (simp add: env_nack_header_def bus_nack_header_def)
  note r = tpm_i2c_read_exhaust_same_data [OF m f, of 0 TPM_HEADER_SIZE]
  show "fst (tpm_i2c_read env_nack_header 0 TPM_HEADER_SIZE (memset 0 0 TPM_BUFSIZE world_init)) = 242"
    by (rule r(1))
  show "mem (header_phase env_nack_header world_init) =
     store_bytes 0 [0, 0, 0, 0, 0, 30] (store_bytes 0 (replicate 1024 0) zero_mem)"
    by (simp only: header_phase_def r(2))
      (simp add: memset_def log_event_def TPM_BUFSIZE_def TPM_HEADER_SIZE_def world_init_def)
  show "n_xfer (header_phase env_nack_header world_init) = trapdoor_limit"
    by (simp only: header_phase_def r(3) n_xfer_memset) (simp add: world_init_def)
qed

lemma total_length_nack_header: "unat (total_length env_nack_header world_init) = 30"
  by (simp add: total_length_def unat_decode header_phase_nack_header(2) store_bytes_def)

lemma stale_first_read:
  "fst (tpm_tis_i2c_read env_stale 0 1025 world_init) = - 14"
  "fst (snd (tpm_tis_i2c_read env_stale 0 1025 world_init)) = []"
  "n_xfer (snd (snd (tpm_tis_i2c_read env_stale 0 1025 world_init))) = 2"
  "mem (snd (snd (tpm_tis_i2c_read env_stale 0 1025 world_init))) 1024 = 0xAB"
proof -
  have m: "has_master_xfer env_stale" by (simp add: env_stale_def)
  have ok0: "0 < sint (fst (bus env_stale (n_xfer world_init)))"
    by (simp add: env_stale_def bus_stale_def world_init_def)
  have ok1: "0 < sint (fst (bus env_stale (Suc (n_xfer world_init))))"
    by (simp add: env_stale_def bus_stale_def world_init_def)
  have tl: "unat (total_length env_stale world_init) = 1025"
    by (subst total_length_first_try [where ?b4.0 = 4 and ?b5.0 = 1 and rest = "[]"])
      (simp_all add: env_stale_def bus_stale_def world_init_def)
  have nx: "n_xfer (header_phase env_stale world_init) = Suc (n_xfer world_init)"
    using m ok0 by (rule n_xfer_header_phase_first_try)
  have ok1': "0 < sint (fst (bus env_stale (n_xfer (header_phase env_stale world_init))))"
    using ok1 by (simp only: nx)
  note second = tpm_i2c_read_first_try [OF m ok1', of 0 1025]
  show "fst (tpm_tis_i2c_read env_stale 0 1025 world_init) = - 14"
    by (simp add: tpm_tis_i2c_read_unfold_nat tl)
  show "fst (snd (tpm_tis_i2c_read env_stale 0 1025 world_init)) = []"
    by (simp add: tpm_tis_i2c_read_unfold_nat tl load_bytes_def)
  show "n_xfer (snd (snd (tpm_tis_i2c_read env_stale 0 1025 world_init))) = 2"
    using read_raw_transfers [OF m ok0 ok1, of 0 1025]
    by (simp add: tl) (simp add: world_init_def)
  show "mem (snd (snd (tpm_tis_i2c_read env_stale 0 1025 world_init))) 1024 = 0xAB"
    by (simp add: tpm_tis_i2c_read_unfold_nat tl mem_log_event second nx)
      (simp add: store_bytes_def env_stale_def bus_stale_def world_init_def)
qed

lemma stale_second_read:
  defines "w1 \<equiv> snd (snd (tpm_tis_i2c_read env_stale 0 1025 world_init))"
  shows "fst (tpm_tis_i2c_read env_stale 1025 1025 w1) = 1025"
    and "fst (snd (tpm_tis_i2c_read env_stale 1025 1025 w1)) ! 1024 = 0xAB"
    and "take 1024 (fst (snd (tpm_tis_i2c_read env_stale 1025 1025 w1))) =
           [0, 0, 0, 0, 4, 1] @ replicate 1018 0"
proof -
  have m: "has_master_xfer env_stale" by (simp add: env_stale_def)
  have n1: "n_xfer w1 = 2" unfolding w1_def by (rule stale_first_read(3))
  have s1: "mem w1 1024 = 0xAB" unfolding w1_def by (rule stale_first_read(4))
  have ok: "0 < sint (fst (bus env_stale (n_xfer w1)))"
    by (simp add: n1 env_stale_def bus_stale_def)
  have d: "snd (bus env_stale (n_xfer w1)) = [0, 0, 0, 0, 4, 1]"
    by (simp add: n1 env_stale_def bus_stale_def)
  have tl: "unat (total_length env_stale w1) = 1025"
    by (subst total_length_first_try [OF m ok, where ?b4.0 = 4 and ?b5.0 = 1 and rest = "[]"])
      (simp_all add: d)
  have hp: "mem (header_phase env_stale w1) =
      store_bytes 0 [0, 0, 0, 0, 4, 1] (store_bytes 0 (replicate 1024 0) (mem w1))"
    by (simp add: header_phase_first_try [OF m ok] d)
  have nx: "n_xfer (header_phase env_stale w1) = 3"
    by (simp add: n_xfer_header_phase_first_try [OF m ok] n1)
  have f: "\<forall>i < trapdoor_limit.
      sint (fst (bus env_stale (n_xfer (header_phase env_stale w1) + i))) \<le> 0
      \<and> snd (bus env_stale (n_xfer (header_phase env_stale w1) + i)) = []"
    by (simp only: nx) (simp add: env_stale_def bus_stale_def)
  note second = tpm_i2c_read_exhaust_same_data [OF m f, of 0 1025]
  have mem2: "mem (snd (tpm_i2c_read env_stale 0 1025 (header_phase env_stale w1))) =
      store_bytes 0 [0, 0, 0, 0, 4, 1] (store_bytes 0 (replicate 1024 0) (mem w1))"
    by (simp add: second(2) store_bytes_Nil hp)
  have out: "fst (snd (tpm_tis_i2c_read env_stale 1025 1025 w1)) =
      load_bytes 0 1025 (store_bytes 0 [0, 0, 0, 0, 4, 1] (store_bytes 0 (replicate 1024 0) (mem w1)))"
    by (simp add: tpm_tis_i2c_read_unfold_nat tl mem2)
  show "fst (tpm_tis_i2c_read env_stale 1025 1025 w1) = 1025"
    by (simp add: tpm_tis_i2c_read_unfold_nat tl)
  show "fst (snd (tpm_tis_i2c_read env_stale 1025 1025 w1)) ! 1024 = 0xAB"
    by (simp add: out load_bytes_def store_bytes_def s1)
  show "take 1024 (fst (snd (tpm_tis_i2c_read env_stale 1025 1025 w1))) =
           [0, 0, 0, 0, 4, 1] @ replicate 1018 0"
  proof (rule nth_equalityI)
    show "length (take 1024 (fst (snd (tpm_tis_i2c_read env_stale 1025 1025 w1)))) =
        length ([0, 0, 0, 0, 4, 1 :: u8] @ replicate 1018 0)"
      by (simp add: out length_load_bytes)
  next
    fix i
    assume "i < length (take 1024 (fst (snd (tpm_tis_i2c_read env_stale 1025 1025 w1))))"
    then have i: "i < 1024" by (simp add: out length_load_bytes)
    have lhs: "take 1024 (fst (snd (tpm_tis_i2c_read env_stale 1025 1025 w1))) ! i =
        store_bytes 0 [0, 0, 0, 0, 4, 1] (store_bytes 0 (replicate 1024 0) (mem w1)) i"
      using i by (simp add: out load_bytes_def)
    have rhs: "([0, 0, 0, 0, 4, 1 :: u8] @ replicate 1018 0) ! i =
        (if i < 6 then [0, 0, 0, 0, 4, 1] ! i else 0)"
      using i by (subst nth_append) simp
    have "store_bytes 0 [0, 0, 0, 0, 4, 1] (store_bytes 0 (replicate 1024 0) (mem w1)) i =
        (if i < 6 then [0, 0, 0, 0, 4, 1] ! i else 0)"
      using i by (simp add: store_bytes_def)
    then show "take 1024 (fst (snd (tpm_tis_i2c_read env_stale 1025 1025 w1))) ! i =
        ([0, 0, 0, 0, 4, 1] @ replicate 1018 0) ! i"
      by (simp only: lhs rhs)
  qed
qed

section \<open>The write path \<^verbatim>\<open>tpm_tis_i2c_write\<close>\<close>

lemma write_too_long:
  "TPM_BUFSIZE < count \<Longrightarrow> tpm_tis_i2c_write e src count w = (- 22, w)"
  by (simp add: tpm_tis_i2c_write_def EINVAL_def)

lemma write_transfer_result:
  assumes "count \<le> TPM_BUFSIZE" and "count \<le> length src"
  shows "fst (tpm_tis_i2c_write e src count w) =
     (if sint (fst (bus e (n_xfer w))) \<le> 0 then - 5 else int count)"
proof -
  let ?msg = "\<lparr>msg_addr = client_addr e, msg_flags = I2C_M_WR,
                msg_len = count mod 65536, msg_buf = 0\<rparr>"
  obtain w2 where cp: "copy_from_user 0 src count (memset 0 0 TPM_BUFSIZE w) = (0, w2)"
    using assms(2) by (simp add: copy_from_user_def)
  have "n_xfer (snd (copy_from_user 0 src count (memset 0 0 TPM_BUFSIZE w))) = n_xfer w"
    by (simp add: n_xfer_copy_from_user n_xfer_memset)
  then have nx: "n_xfer w2 = n_xfer w" by (simp add: cp)
  obtain w3 where tr: "i2c_transfer e ?msg w2 = (fst (bus e (n_xfer w)), w3)"
    using i2c_transfer_pair [of e ?msg w2] by (simp add: nx)
  show ?thesis
    using assms(1) by (simp add: tpm_tis_i2c_write_def Let_def cp tr EIO_def)
qed

lemma mem_write:
  assumes "count \<le> TPM_BUFSIZE"
  shows "mem (snd (tpm_tis_i2c_write e src count w)) =
     store_bytes 0 (take count src) (store_bytes 0 (replicate TPM_BUFSIZE 0) (mem w))"
proof -
  let ?msg = "\<lparr>msg_addr = client_addr e, msg_flags = I2C_M_WR,
                msg_len = count mod 65536, msg_buf = 0\<rparr>"
  let ?w2 = "snd (copy_from_user 0 src count (memset 0 0 TPM_BUFSIZE w))"
  have m2: "mem ?w2 =
      store_bytes 0 (take count src) (store_bytes 0 (replicate TPM_BUFSIZE 0) (mem w))"
    by (simp add: copy_from_user_def memset_def log_event_def)
  have m3: "mem (snd (i2c_transfer e ?msg ?w2)) = mem ?w2"
    by (rule mem_i2c_transfer_write) simp
  show ?thesis
    using assms
    by (cases "copy_from_user 0 src count (memset 0 0 TPM_BUFSIZE w)";
        cases "i2c_transfer e ?msg ?w2")
      (use m2 m3 in \<open>auto simp add: tpm_tis_i2c_write_def Let_def\<close>)
qed

lemma dev_buf_store:
  assumes "length d \<le> TPM_BUFSIZE"
  shows "map (store_bytes 0 d (store_bytes 0 (replicate TPM_BUFSIZE 0) m)) [0..<TPM_BUFSIZE] =
     d @ replicate (TPM_BUFSIZE - length d) 0"
proof (rule nth_equalityI)
  show "length (map (store_bytes 0 d (store_bytes 0 (replicate TPM_BUFSIZE 0) m)) [0..<TPM_BUFSIZE]) =
      length (d @ replicate (TPM_BUFSIZE - length d) 0)"
    using assms by simp
next
  fix i
  assume "i < length (map (store_bytes 0 d (store_bytes 0 (replicate TPM_BUFSIZE 0) m)) [0..<TPM_BUFSIZE])"
  then have i: "i < TPM_BUFSIZE" by simp
  then show "map (store_bytes 0 d (store_bytes 0 (replicate TPM_BUFSIZE 0) m)) [0..<TPM_BUFSIZE] ! i =
      (d @ replicate (TPM_BUFSIZE - length d) 0) ! i"
    by (simp add: store_bytes_def nth_append)
qed

lemma dev_buf_write:
  assumes "count \<le> TPM_BUFSIZE"
  shows "dev_buf (snd (tpm_tis_i2c_write e src count w)) =
     take count src @ replicate (TPM_BUFSIZE - min count (length src)) 0"
proof -
  have "length (take count src) \<le> TPM_BUFSIZE" using assms by simp
  from dev_buf_store [OF this] show ?thesis
    by (simp add: dev_buf_def mem_write [OF assms] min.commute)
qed

lemma events_write_first:
  assumes "count \<le> TPM_BUFSIZE"
  shows "take (Suc (length (events w))) (events (snd (tpm_tis_i2c_write e src count w))) =
     events w @ [Memset 0 TPM_BUFSIZE]"
  using assms
  by (cases "bus e (n_xfer w)")
    (simp add: tpm_tis_i2c_write_def Let_def copy_from_user_def memset_def log_event_def
      i2c_transfer_def)

text \<open>Every effect of a write stays inside the buffer.\<close>

lemma write_in_bounds:
  "\<exists>xs. events (snd (tpm_tis_i2c_write e src count w)) = events w @ xs \<and> list_all in_bounds xs"
proof (cases "TPM_BUFSIZE < count")
  case True
  then show ?thesis by (simp add: write_too_long)
next
  case False
  then have "count mod 65536 \<le> TPM_BUFSIZE"
    by (meson mod_less_eq_dividend not_less order_trans)
  with False show ?thesis
    by (cases "bus e (n_xfer w)")
      (simp add: tpm_tis_i2c_write_def Let_def copy_from_user_def memset_def log_event_def
        i2c_transfer_def)
qed

section \<open>The properties of the specification\<close>

subsection \<open>Buffer capacity\<close>

text \<open>
  Claim C1, evaluated on a device whose header carries \<open>0xFF, 0xFF\<close> at offsets 4 and 5:
  \<^verbatim>\<open>expected\<close> is 65535, the second bus read asks the adapter to store 65535 bytes at the
  start of the 1024-byte buffer, and \<^verbatim>\<open>copy_to_user\<close> copies 65535 bytes out of it. Both
  effects reach past the end of \<^verbatim>\<open>tpm_dev.buf\<close>.
\<close>

theorem read_overruns_buffer_at_FFFF:
  "events (snd (snd (tpm_tis_i2c_read env_lenFFFF 65535 65535 world_init))) =
     [Memset 0 1024,
      Call_tpm_i2c_read 0 6, Lock_adapter, I2c_transfer I2C_M_RD 0 6, Unlock_adapter,
      Call_tpm_i2c_read 0 65535, Lock_adapter, I2c_transfer I2C_M_RD 0 65535, Unlock_adapter,
      Copy_to_user 0 65535]
   \<and> \<not> in_bounds (I2c_transfer I2C_M_RD 0 65535)
   \<and> \<not> in_bounds (Copy_to_user 0 65535)
   \<and> \<not> list_all in_bounds (events (snd (snd (tpm_tis_i2c_read env_lenFFFF 65535 65535 world_init))))
   \<and> fst (tpm_tis_i2c_read env_lenFFFF 65535 65535 world_init) = 65535
   \<and> length (fst (snd (tpm_tis_i2c_read env_lenFFFF 65535 65535 world_init))) = 65535"
proof -
  have m: "has_master_xfer env_lenFFFF" by (simp add: env_lenFFFF_def)
  have ok: "0 < sint (fst (bus env_lenFFFF k))" for k
    by (simp add: env_lenFFFF_def bus_lenFFFF_def)
  have hp: "header_phase env_lenFFFF world_init =
     world_init\<lparr>mem := store_bytes 0 (take 6 (snd (bus env_lenFFFF (n_xfer world_init))))
               (store_bytes 0 (replicate 1024 0) (mem world_init)),
       n_xfer := Suc (n_xfer world_init),
       events := events world_init @ [Memset 0 1024, Call_tpm_i2c_read 0 6, Lock_adapter,
                             I2c_transfer I2C_M_RD 0 6, Unlock_adapter]\<rparr>"
    using m ok by (rule header_phase_first_try)
  have ev: "events (snd (snd (tpm_tis_i2c_read env_lenFFFF 65535 65535 world_init))) =
     [Memset 0 1024,
      Call_tpm_i2c_read 0 6, Lock_adapter, I2c_transfer I2C_M_RD 0 6, Unlock_adapter,
      Call_tpm_i2c_read 0 65535, Lock_adapter, I2c_transfer I2C_M_RD 0 65535, Unlock_adapter,
      Copy_to_user 0 65535]"
    by (simp add: tpm_tis_i2c_read_unfold_nat total_length_lenFFFF events_log_event
        tpm_i2c_read_first_try [OF m ok] hp)
      (simp add: world_init_def)
  show ?thesis
    by (simp only: ev) (simp add: tpm_tis_i2c_read_unfold_nat total_length_lenFFFF
        length_load_bytes TPM_BUFSIZE_def)
qed

subsection \<open>Header-length decoding\<close>

text \<open>
  Claim C2. For every pair of bytes at offsets 4 and 5 of the buffer, \<^verbatim>\<open>expected\<close> is the
  big-endian 16-bit value \<open>b4 * 256 + b5\<close>: bytes \<open>0x00, 0x00\<close> give 0 and bytes
  \<open>0xFF, 0xFF\<close> give 65535. The read path decodes exactly this value from the buffer as the
  header read left it, and hands it to \<^verbatim>\<open>copy_to_user\<close> as the length.
\<close>

theorem decode_expected_big_endian:
  "sint (decode_expected m) = uint (m 4) * 256 + uint (m 5)
   \<and> sint (decode_expected (m(4 := 0x00, 5 := 0x00))) = 0
   \<and> sint (decode_expected (m(4 := 0xFF, 5 := 0xFF))) = 65535
   \<and> sint (total_length e w) =
       uint (mem (header_phase e w) 4) * 256 + uint (mem (header_phase e w) 5)
   \<and> last (events (snd (snd (tpm_tis_i2c_read e room count w)))) =
       Copy_to_user 0 (unat (mem (header_phase e w) 4) * 256 + unat (mem (header_phase e w) 5))"
proof (intro conjI)
  show "sint (decode_expected m) = uint (m 4) * 256 + uint (m 5)"
    by (rule sint_decode)
  show "sint (decode_expected (m(4 := 0x00, 5 := 0x00))) = 0"
    by (simp add: sint_decode)
  show "sint (decode_expected (m(4 := 0xFF, 5 := 0xFF))) = 65535"
    by (simp add: sint_decode)
  show "sint (total_length e w) =
       uint (mem (header_phase e w) 4) * 256 + uint (mem (header_phase e w) 5)"
    by (simp add: total_length_def sint_decode)
  show "last (events (snd (snd (tpm_tis_i2c_read e room count w)))) =
       Copy_to_user 0 (unat (mem (header_phase e w) 4) * 256 + unat (mem (header_phase e w) 5))"
    by (simp add: tpm_tis_i2c_read_last_event) (simp add: total_length_def unat_decode)
qed

subsection \<open>One or two bus reads\<close>

text \<open>
  Claim C3, as amended. Let \<open>n\<close> be the decoded \<^verbatim>\<open>expected\<close>. If \<open>n \<le> 6\<close> the read makes
  exactly one bus read, that is one call of \<^verbatim>\<open>tpm_i2c_read\<close> (the header read of 6 bytes at
  the start of the buffer); if \<open>n > 6\<close> it makes exactly two, the second asking for \<open>n\<close>
  bytes again at offset 0 of the buffer. When the device answers each bus read at the first
  attempt these are one and two raw transfers. Provided the copy to the caller succeeds,
  the caller receives \<open>n\<close> bytes and \<open>n\<close> is returned; when the copy fails the result is
  \<^verbatim>\<open>-EFAULT\<close> instead.
\<close>

theorem read_one_or_two_bus_reads:
  "(unat (total_length e w) \<le> 6 \<longrightarrow>
      bus_reads (events (snd (snd (tpm_tis_i2c_read e room count w)))) =
        bus_reads (events w) @ [(0, 6)])
   \<and> (6 < unat (total_length e w) \<longrightarrow>
      bus_reads (events (snd (snd (tpm_tis_i2c_read e room count w)))) =
        bus_reads (events w) @ [(0, 6), (0, unat (total_length e w))])
   \<and> (has_master_xfer e \<and> 0 < sint (fst (bus e (n_xfer w)))
        \<and> 0 < sint (fst (bus e (Suc (n_xfer w)))) \<longrightarrow>
      n_xfer (snd (snd (tpm_tis_i2c_read e room count w))) =
        n_xfer w + (if unat (total_length e w) \<le> 6 then 1 else 2))
   \<and> (unat (total_length e w) \<le> room \<longrightarrow>
      fst (tpm_tis_i2c_read e room count w) = int (unat (total_length e w))
      \<and> length (fst (snd (tpm_tis_i2c_read e room count w))) = unat (total_length e w)
      \<and> fst (snd (tpm_tis_i2c_read e room count w)) =
          load_bytes 0 (unat (total_length e w)) (mem (snd (snd (tpm_tis_i2c_read e room count w)))))
   \<and> (room < unat (total_length e w) \<longrightarrow>
      fst (tpm_tis_i2c_read e room count w) = sint (- EFAULT))"
proof (intro conjI impI)
  assume "has_master_xfer e \<and> 0 < sint (fst (bus e (n_xfer w)))
        \<and> 0 < sint (fst (bus e (Suc (n_xfer w))))"
  then show "n_xfer (snd (snd (tpm_tis_i2c_read e room count w))) =
        n_xfer w + (if unat (total_length e w) \<le> 6 then 1 else 2)"
    by (intro read_raw_transfers) simp_all
qed (simp_all add: tpm_tis_i2c_read_unfold_nat events_log_event mem_log_event
      bus_reads_simps header_phase_bus_reads tpm_i2c_read_bus_reads length_load_bytes
      TPM_HEADER_SIZE_def EFAULT_def)

theorem read_one_or_two_bus_reads_witness:
  "bus_reads (events (snd (snd (tpm_tis_i2c_read env_len6 6 6 world_init)))) = [(0, 6)]
   \<and> n_xfer (snd (snd (tpm_tis_i2c_read env_len6 6 6 world_init))) = 1
   \<and> fst (tpm_tis_i2c_read env_len6 6 6 world_init) = 6
   \<and> length (fst (snd (tpm_tis_i2c_read env_len6 6 6 world_init))) = 6
   \<and> bus_reads (events (snd (snd (tpm_tis_i2c_read env_len30 30 30 world_init)))) = [(0, 6), (0, 30)]
   \<and> n_xfer (snd (snd (tpm_tis_i2c_read env_len30 30 30 world_init))) = 2
   \<and> fst (tpm_tis_i2c_read env_len30 30 30 world_init) = 30
   \<and> length (fst (snd (tpm_tis_i2c_read env_len30 30 30 world_init))) = 30
   \<and> fst (tpm_tis_i2c_read env_len30 8 30 world_init) = - 14"
  using read_one_or_two_bus_reads [of env_len6 world_init 6 6]
    read_one_or_two_bus_reads [of env_len30 world_init 30 30]
    read_one_or_two_bus_reads [of env_len30 world_init 8 30]
  by (simp add: total_length_len6 total_length_len30 EFAULT_def)
    (simp add: world_init_def bus_reads_simps length_load_bytes env_len6_def bus_len6_def
      env_len30_def bus_len30_def)

text \<open>
  The claim as stated fails where the caller's buffer cannot take the bytes: with a header
  announcing 6 bytes and nothing writable at the user pointer, the read returns \<^verbatim>\<open>-EFAULT\<close>
  and delivers no byte.
\<close>

theorem read_one_or_two_bus_reads_counterexample:
  "unat (total_length env_len6 world_init) = 6
   \<and> fst (tpm_tis_i2c_read env_len6 0 6 world_init) = - 14
   \<and> fst (snd (tpm_tis_i2c_read env_len6 0 6 world_init)) = []"
  by (simp add: tpm_tis_i2c_read_unfold_nat total_length_len6 load_bytes_def)

subsection \<open>Write size boundary\<close>

text \<open>
  Claim C4. A write with \<open>count > 1024\<close> returns \<^verbatim>\<open>-EINVAL\<close> (\<open>-22\<close>), makes no bus transfer
  and leaves the device buffer (indeed the whole state) unchanged. A write with
  \<open>count = 1024\<close> whose copy from the caller and whose transfer succeed returns 1024.
\<close>

theorem write_size_boundary:
  "(TPM_BUFSIZE < count \<longrightarrow>
      fst (tpm_tis_i2c_write e src count w) = - 22
      \<and> n_xfer (snd (tpm_tis_i2c_write e src count w)) = n_xfer w
      \<and> events (snd (tpm_tis_i2c_write e src count w)) = events w
      \<and> dev_buf (snd (tpm_tis_i2c_write e src count w)) = dev_buf w
      \<and> snd (tpm_tis_i2c_write e src count w) = w)
   \<and> (count = TPM_BUFSIZE \<and> count \<le> length src \<and> 0 < sint (fst (bus e (n_xfer w)))
        \<longrightarrow> fst (tpm_tis_i2c_write e src count w) = 1024)"
  by (auto simp add: write_too_long write_transfer_result) (simp add: TPM_BUFSIZE_def)

theorem write_size_boundary_witness:
  "tpm_tis_i2c_write env_len6 [] 1025 world_init = (- 22, world_init)
   \<and> fst (tpm_tis_i2c_write env_len6 (replicate 1024 0x5A) 1024 world_init) = 1024"
  using write_size_boundary [of 1025 env_len6 "[]" world_init]
    write_size_boundary [of 1024 env_len6 "replicate 1024 0x5A" world_init]
  by (simp add: TPM_BUFSIZE_def env_len6_def bus_len6_def world_init_def prod_eq_iff)

subsection \<open>Retry exhaustion\<close>

text \<open>
  Claim C5, evaluated on a bus that refuses every transfer: after exactly 60000 raw
  transfers \<^verbatim>\<open>tpm_i2c_read\<close> executes \<^verbatim>\<open>return -EFAULT\<close>, but what the caller receives is the
  \<^verbatim>\<open>u8\<close> value 242, which is not the error code \<open>-14\<close>.
\<close>

theorem retry_exhaustion_returns_242:
  "fst (tpm_i2c_read env_nack 0 6 world_init) = 242
   \<and> uint (fst (tpm_i2c_read env_nack 0 6 world_init)) = 242
   \<and> sint (- EFAULT) = - 14
   \<and> n_xfer (snd (tpm_i2c_read env_nack 0 6 world_init)) = 60000"
proof -
  have m: "has_master_xfer env_nack" by (simp add: env_nack_def)
  have f: "\<forall>i < trapdoor_limit. sint (fst (bus env_nack (n_xfer world_init + i))) \<le> 0"
    by (simp add: env_nack_def bus_nack_def)
  show ?thesis
    by (simp add: tpm_i2c_read_exhaust [OF m f] EFAULT_def n_xfer_log_event n_xfer_retry_steps)
      (simp add: world_init_def trapdoor_limit_def)
qed

subsection \<open>All-or-nothing write\<close>

text \<open>
  Claim C6. When the write reaches its raw transfer (\<open>count \<le> 1024\<close> and the copy from the
  caller succeeded) and the transfer reports a non-positive result, the returned value is
  \<^verbatim>\<open>-EIO\<close> (\<open>-5\<close>); when the transfer reports a positive result, it is exactly \<open>count\<close>.
  Whatever happens, the returned value is either \<open>count\<close> or one of the three negative
  error codes: never a partial byte count.
\<close>

theorem write_all_or_nothing:
  "(count \<le> TPM_BUFSIZE \<and> count \<le> length src \<and> sint (fst (bus e (n_xfer w))) \<le> 0
      \<longrightarrow> fst (tpm_tis_i2c_write e src count w) = sint (- EIO))
   \<and> (count \<le> TPM_BUFSIZE \<and> count \<le> length src \<and> 0 < sint (fst (bus e (n_xfer w)))
      \<longrightarrow> fst (tpm_tis_i2c_write e src count w) = int count)
   \<and> (fst (tpm_tis_i2c_write e src count w) = int count
      \<or> fst (tpm_tis_i2c_write e src count w) \<in> {sint (- EINVAL), sint (- EFAULT), sint (- EIO)})
   \<and> sint (- EINVAL) = - 22 \<and> sint (- EFAULT) = - 14 \<and> sint (- EIO) = - 5"
proof (intro conjI impI)
  assume "count \<le> TPM_BUFSIZE \<and> count \<le> length src \<and> sint (fst (bus e (n_xfer w))) \<le> 0"
  then show "fst (tpm_tis_i2c_write e src count w) = sint (- EIO)"
    by (simp add: write_transfer_result EIO_def)
next
  assume "count \<le> TPM_BUFSIZE \<and> count \<le> length src \<and> 0 < sint (fst (bus e (n_xfer w)))"
  then show "fst (tpm_tis_i2c_write e src count w) = int count"
    by (simp add: write_transfer_result)
next
  show "fst (tpm_tis_i2c_write e src count w) = int count
      \<or> fst (tpm_tis_i2c_write e src count w) \<in> {sint (- EINVAL), sint (- EFAULT), sint (- EIO)}"
    by (simp add: tpm_tis_i2c_write_def Let_def split: prod.splits)
qed (simp_all add: EINVAL_def EFAULT_def EIO_def)

theorem write_all_or_nothing_witness:
  "fst (tpm_tis_i2c_write env_nack [1, 2, 3] 3 world_init) = - 5
   \<and> fst (tpm_tis_i2c_write env_len6 [1, 2, 3] 3 world_init) = 3"
  using write_all_or_nothing [of 3 "[1, 2, 3]" env_nack world_init]
    write_all_or_nothing [of 3 "[1, 2, 3]" env_len6 world_init]
  by (simp add: TPM_BUFSIZE_def env_len6_def bus_len6_def env_nack_def bus_nack_def
      world_init_def EIO_def)

subsection \<open>Buffer zeroing\<close>

text \<open>
  What holds of the zeroing. Every read, and every write that gets past the size check,
  begins by zero-filling all 1024 bytes of \<^verbatim>\<open>tpm_dev.buf\<close>; a write that fails the size
  check leaves the state as it was and never uses the buffer. After a write of a payload of
  length \<open>n \<le> 1024\<close> the buffer holds the payload in bytes \<open>0 ..< n\<close> and zeros elsewhere,
  whatever an earlier write left there; so of two consecutive writes only the second
  payload is left in the buffer. A read forgets what the 1024 bytes of the buffer held
  before: two states that agree behind the buffer give the same result.
\<close>

lemma buffer_zeroed_before_use:
  "take (Suc (length (events w))) (events (snd (snd (tpm_tis_i2c_read e room rcount w)))) =
      events w @ [Memset 0 TPM_BUFSIZE]
   \<and> (count \<le> TPM_BUFSIZE \<longrightarrow>
        take (Suc (length (events w))) (events (snd (tpm_tis_i2c_write e src count w))) =
          events w @ [Memset 0 TPM_BUFSIZE])
   \<and> (TPM_BUFSIZE < count \<longrightarrow> snd (tpm_tis_i2c_write e src count w) = w)
   \<and> (length src = count \<and> count \<le> TPM_BUFSIZE \<longrightarrow>
        dev_buf (snd (tpm_tis_i2c_write e src count w)) =
          src @ replicate (TPM_BUFSIZE - count) 0)
   \<and> (length p2 \<le> TPM_BUFSIZE \<longrightarrow>
        dev_buf (snd (tpm_tis_i2c_write e' p2 (length p2)
                   (snd (tpm_tis_i2c_write e p1 count1 w)))) =
          p2 @ replicate (TPM_BUFSIZE - length p2) 0)
   \<and> ((\<forall>i. TPM_BUFSIZE \<le> i \<longrightarrow> m1 i = m2 i) \<longrightarrow>
        tpm_tis_i2c_read e room rcount (w\<lparr>mem := m1\<rparr>) =
        tpm_tis_i2c_read e room rcount (w\<lparr>mem := m2\<rparr>))"
proof (intro conjI impI)
  show "take (Suc (length (events w))) (events (snd (snd (tpm_tis_i2c_read e room rcount w)))) =
      events w @ [Memset 0 TPM_BUFSIZE]"
    by (rule events_read_first)
next
  assume "count \<le> TPM_BUFSIZE"
  then show "take (Suc (length (events w))) (events (snd (tpm_tis_i2c_write e src count w))) =
      events w @ [Memset 0 TPM_BUFSIZE]"
    by (rule events_write_first)
next
  assume "TPM_BUFSIZE < count"
  then show "snd (tpm_tis_i2c_write e src count w) = w"
    by (simp add: write_too_long)
next
  assume "length src = count \<and> count \<le> TPM_BUFSIZE"
  then show "dev_buf (snd (tpm_tis_i2c_write e src count w)) =
      src @ replicate (TPM_BUFSIZE - count) 0"
    by (simp add: dev_buf_write)
next
  assume "length p2 \<le> TPM_BUFSIZE"
  then show "dev_buf (snd (tpm_tis_i2c_write e' p2 (length p2)
                   (snd (tpm_tis_i2c_write e p1 count1 w)))) =
      p2 @ replicate (TPM_BUFSIZE - length p2) 0"
    by (simp add: dev_buf_write)
next
  assume "\<forall>i. TPM_BUFSIZE \<le> i \<longrightarrow> m1 i = m2 i"
  then show "tpm_tis_i2c_read e room rcount (w\<lparr>mem := m1\<rparr>) =
      tpm_tis_i2c_read e room rcount (w\<lparr>mem := m2\<rparr>)"
    by (rule read_forgets_buffer)
qed

text \<open>
  Claim C7, evaluated on two reads in a row. The device announces 1025 bytes and sends
  1025 bytes \<open>0xAB\<close>; the first read stores them from the start of the buffer, one byte
  past its end, and then fails with \<^verbatim>\<open>-EFAULT\<close> because nothing is writable at the user
  pointer. In the second read the device announces 1025 bytes again and then refuses every
  transfer. The \<^verbatim>\<open>memset\<close> clears the 1024 bytes of the buffer only, and the second read
  hands 1025 bytes to its caller: the header, zeros, and at index 1024 the byte \<open>0xAB\<close>
  that the failed first read left behind.
\<close>

theorem stale_byte_reaches_later_read:
  "fst (tpm_tis_i2c_read env_stale 0 1025 world_init) = - 14
   \<and> fst (snd (tpm_tis_i2c_read env_stale 0 1025 world_init)) = []
   \<and> fst (tpm_tis_i2c_read env_stale 1025 1025
             (snd (snd (tpm_tis_i2c_read env_stale 0 1025 world_init)))) = 1025
   \<and> take 1024 (fst (snd (tpm_tis_i2c_read env_stale 1025 1025
                            (snd (snd (tpm_tis_i2c_read env_stale 0 1025 world_init)))))) =
       [0, 0, 0, 0, 4, 1] @ replicate 1018 0
   \<and> fst (snd (tpm_tis_i2c_read env_stale 1025 1025
                 (snd (snd (tpm_tis_i2c_read env_stale 0 1025 world_init))))) ! 1024 = 0xAB"
  by (simp only: stale_first_read stale_second_read simp_thms)

subsection \<open>The requested count\<close>

text \<open>
  Claim C8. The argument \<^verbatim>\<open>count\<close> of \<^verbatim>\<open>tpm_tis_i2c_read\<close> has no influence: for any two
  requested counts and the same surroundings and state, the returned value, the bytes
  delivered and the resulting state (with its record of transfers) are the same.
\<close>

theorem read_ignores_requested_count:
  "tpm_tis_i2c_read e room count1 w = tpm_tis_i2c_read e room count2 w"
  by (simp add: tpm_tis_i2c_read_def)

subsection \<open>A failed header read\<close>

text \<open>
  Claim C9, as amended. When the header read fails because every one of the 60000 attempts
  is refused, and no refused attempt stored a byte in the buffer, \<^verbatim>\<open>tpm_tis_i2c_read\<close>
  returns no error: the status of the header read (the truncated \<^verbatim>\<open>-EFAULT\<close>) is ignored,
  \<^verbatim>\<open>expected\<close> is decoded as 0 from the zero-filled buffer, \<^verbatim>\<open>tpm_i2c_read\<close> is not called a
  second time, and 0 is returned to the caller with no bytes delivered.
\<close>

theorem failed_header_read_returns_zero:
  assumes "has_master_xfer e"
    and "\<forall>i < trapdoor_limit. sint (fst (bus e (n_xfer w + i))) \<le> 0
           \<and> snd (bus e (n_xfer w + i)) = []"
  shows "fst (tpm_i2c_read e 0 TPM_HEADER_SIZE (memset 0 0 TPM_BUFSIZE w)) = ucast (- EFAULT)
    \<and> sint (total_length e w) = 0
    \<and> fst (tpm_tis_i2c_read e room count w) = 0
    \<and> fst (snd (tpm_tis_i2c_read e room count w)) = []
    \<and> bus_reads (events (snd (snd (tpm_tis_i2c_read e room count w)))) =
        bus_reads (events w) @ [(0, TPM_HEADER_SIZE)]
    \<and> n_xfer (snd (snd (tpm_tis_i2c_read e room count w))) = n_xfer w + trapdoor_limit"
proof -
  have tl: "total_length e w = 0"
    by (simp add: total_length_def header_phase_exhaust(2) [OF assms] decode_expected_def
        mem_memset_zero TPM_BUFSIZE_def)
  show ?thesis
    by (simp add: tpm_tis_i2c_read_unfold tl header_phase_exhaust [OF assms] EFAULT_def
        load_bytes_def events_log_event n_xfer_log_event header_phase_bus_reads bus_reads_simps)
qed

theorem failed_header_read_returns_zero_witness:
  "has_master_xfer env_nack
   \<and> fst (tpm_i2c_read env_nack 0 TPM_HEADER_SIZE (memset 0 0 TPM_BUFSIZE world_init)) = 242
   \<and> fst (tpm_tis_i2c_read env_nack 64 64 world_init) = 0
   \<and> fst (snd (tpm_tis_i2c_read env_nack 64 64 world_init)) = []
   \<and> bus_reads (events (snd (snd (tpm_tis_i2c_read env_nack 64 64 world_init)))) = [(0, 6)]
   \<and> n_xfer (snd (snd (tpm_tis_i2c_read env_nack 64 64 world_init))) = 60000"
  using failed_header_read_returns_zero [of env_nack world_init 64 64]
  by (simp add: env_nack_def bus_nack_def world_init_def EFAULT_def TPM_HEADER_SIZE_def
      trapdoor_limit_def bus_reads_simps)

text \<open>
  The claim as stated fails where a refused transfer has left bytes in the buffer: every
  attempt of the header read is refused, so that the retry budget is exhausted and the
  status is the truncated \<^verbatim>\<open>-EFAULT\<close>; yet the six bytes the adapter stored decode to
  \<^verbatim>\<open>expected = 30\<close>, \<^verbatim>\<open>tpm_i2c_read\<close> is called a second time, and the read returns 30.
\<close>

theorem failed_header_read_returns_zero_counterexample:
  "fst (tpm_i2c_read env_nack_header 0 TPM_HEADER_SIZE (memset 0 0 TPM_BUFSIZE world_init)) = 242
   \<and> n_xfer (header_phase env_nack_header world_init) = 60000
   \<and> unat (total_length env_nack_header world_init) = 30
   \<and> fst (tpm_tis_i2c_read env_nack_header 64 64 world_init) = 30
   \<and> bus_reads (events (snd (snd (tpm_tis_i2c_read env_nack_header 64 64 world_init)))) =
       [(0, 6), (0, 30)]"
proof (intro conjI)
  show "fst (tpm_i2c_read env_nack_header 0 TPM_HEADER_SIZE (memset 0 0 TPM_BUFSIZE world_init)) = 242"
    by (rule header_phase_nack_header(1))
  show "n_xfer (header_phase env_nack_header world_init) = 60000"
    by (simp only: header_phase_nack_header(3) trapdoor_limit_def)
  show "unat (total_length env_nack_header world_init) = 30"
    by (rule total_length_nack_header)
  show "fst (tpm_tis_i2c_read env_nack_header 64 64 world_init) = 30"
    by (simp add: tpm_tis_i2c_read_unfold_nat total_length_nack_header)
  show "bus_reads (events (snd (snd (tpm_tis_i2c_read env_nack_header 64 64 world_init)))) =
       [(0, 6), (0, 30)]"
    by (simp add: tpm_tis_i2c_read_unfold_nat total_length_nack_header events_log_event
        bus_reads_simps header_phase_bus_reads tpm_i2c_read_bus_reads TPM_HEADER_SIZE_def)
      (simp add: world_init_def bus_reads_simps)
qed

subsection \<open>The 8-bit result of the polling read\<close>

text \<open>
  Claim C10. \<^verbatim>\<open>tpm_i2c_read\<close> is declared to return \<^verbatim>\<open>u8\<close>, so its two error codes reach
  the caller reduced modulo 256: \<^verbatim>\<open>-EOPNOTSUPP\<close> (\<open>-95\<close>) as 161 and \<^verbatim>\<open>-EFAULT\<close> (\<open>-14\<close>) as
  242, both positive. A run whose first transfer returns 242 succeeds with the very same
  value, so the caller cannot tell the failure from a success.
\<close>

theorem error_codes_truncated_to_u8:
  "(\<not> has_master_xfer e \<longrightarrow> fst (tpm_i2c_read e b l w) = ucast (- EOPNOTSUPP))
   \<and> (has_master_xfer e \<and> (\<forall>i < trapdoor_limit. sint (fst (bus e (n_xfer w + i))) \<le> 0)
        \<longrightarrow> fst (tpm_i2c_read e b l w) = ucast (- EFAULT))
   \<and> (has_master_xfer e \<and> fst (bus e (n_xfer w)) = 242
        \<longrightarrow> fst (tpm_i2c_read e b l w) = 242)
   \<and> sint (- EOPNOTSUPP) = - 95 \<and> uint (ucast (- EOPNOTSUPP) :: u8) = 161
   \<and> sint (- EFAULT) = - 14 \<and> uint (ucast (- EFAULT) :: u8) = 242
   \<and> (- 95 :: int) mod 256 = 161 \<and> (- 14 :: int) mod 256 = 242"
proof (intro conjI impI)
  assume "\<not> has_master_xfer e"
  then show "fst (tpm_i2c_read e b l w) = ucast (- EOPNOTSUPP)"
    by (simp add: tpm_i2c_read_not_supported EOPNOTSUPP_def)
next
  assume "has_master_xfer e \<and> (\<forall>i < trapdoor_limit. sint (fst (bus e (n_xfer w + i))) \<le> 0)"
  then show "fst (tpm_i2c_read e b l w) = ucast (- EFAULT)"
    by (simp add: tpm_i2c_read_exhaust EFAULT_def)
next
  assume "has_master_xfer e \<and> fst (bus e (n_xfer w)) = 242"
  then show "fst (tpm_i2c_read e b l w) = 242"
    by (simp add: tpm_i2c_read_first_try)
qed (simp_all add: EOPNOTSUPP_def EFAULT_def)

theorem error_codes_truncated_to_u8_witness:
  "fst (tpm_i2c_read env_no_xfer 0 6 world_init) = 161
   \<and> fst (tpm_i2c_read env_nack 0 6 world_init) = 242
   \<and> fst (tpm_i2c_read env_rc242 0 6 world_init) = 242"
  using error_codes_truncated_to_u8 [of env_no_xfer 0 6 world_init]
    error_codes_truncated_to_u8 [of env_nack 0 6 world_init]
    error_codes_truncated_to_u8 [of env_rc242 0 6 world_init]
  by (simp add: env_no_xfer_def env_nack_def env_rc242_def bus_nack_def bus_rc242_def
      world_init_def EOPNOTSUPP_def EFAULT_def)

end
